theory Spec2Isabelle
  imports Complex_Main "HOL-Library.Sublist"
begin

section \<open>The live-conversation component: data\<close>

text \<open>
  The development embeds the \<^verbatim>\<open>LiveConversation\<close> React component (the revision with the
  \<^verbatim>\<open>error\<close> state and the waveform analysers). The component is a set of event handlers
  over React state, two refs and the Web Audio platform. Each handler becomes a function
  from component state to component state; every call the handler makes on the platform
  or on the SDK session is appended to a trace of effects, so that what a handler did to
  the outside world can be read off the state it returns.

  Times (\<^verbatim>\<open>nextStartTime\<close>, \<^verbatim>\<open>currentTime\<close>, \<^verbatim>\<open>duration\<close>) are JavaScript numbers, in
  seconds; they are taken as exact reals here, so rounding of the additions is not part of
  the model.
\<close>

type_synonym handle = nat
type_synonym blob = string

text \<open>\<^verbatim>\<open>type TranscriptionTurn = { user: string; model: string }\<close>\<close>

record TranscriptionTurn =
  user :: string
  model :: string

text \<open>Calls on the platform and on the SDK that the handlers make, in the order made.\<close>

datatype effect =
    GetUserMedia
  | LiveConnect handle
  | SessionClose handle
  | TrackStop handle
  | Disconnect handle
  | ContextClose handle
  | RequestAnimationFrame nat
  | CancelAnimationFrame nat
  | SendRealtimeInput handle blob
  | SourceStart handle real real
  | SourceStop handle
  | ConsoleLog string
  | ConsoleError string

text \<open>
  The object held in the \<^verbatim>\<open>audioResources\<close> ref. A platform object is a handle, \<^verbatim>\<open>null\<close> is
  \<open>None\<close>. The \<^verbatim>\<open>Set\<close> of playing sources is a list in insertion order, which is the order
  a JavaScript \<^verbatim>\<open>Set\<close> iterates in.
\<close>

record resources =
  stream :: "handle option"
  inputAudioContext :: "handle option"
  outputAudioContext :: "handle option"
  outputGainNode :: "handle option"
  scriptProcessor :: "handle option"
  sources :: "handle list"
  nextStartTime :: real
  animationFrameId :: "nat option"
  inputAnalyser :: "handle option"
  outputAnalyser :: "handle option"

text \<open>
  The component. \<open>isActive\<close>, \<open>isConnecting\<close>, \<open>transcription\<close>, \<open>currentTurn\<close> and
  \<open>error\<close> are the \<^verbatim>\<open>useState\<close> cells, holding the value that results from the updates
  queued so far. \<open>currentTurnRef\<close> is the ref that a \<^verbatim>\<open>useEffect\<close> copies \<open>currentTurn\<close>
  into after a render, and \<open>renderedIsActive\<close>, \<open>renderedIsConnecting\<close> are the values
  the closures of the last render see; all three change only in \<open>render\<close>.
  \<open>capturedIsActive\<close> is the \<^verbatim>\<open>isActive\<close> that the session callbacks closed over when
  \<^verbatim>\<open>startConversation\<close> built them. \<open>fresh\<close> is the next unused handle, \<open>effects\<close> the
  trace.
\<close>

record component =
  isActive :: bool
  isConnecting :: bool
  transcription :: "TranscriptionTurn list"
  currentTurn :: TranscriptionTurn
  error :: "string option"
  currentTurnRef :: TranscriptionTurn
  sessionRef :: "handle option"
  audioResources :: resources
  renderedIsActive :: bool
  renderedIsConnecting :: bool
  capturedIsActive :: bool
  fresh :: nat
  effects :: "effect list"

definition emptyTurn :: TranscriptionTurn where
  "emptyTurn = \<lparr>user = [], model = []\<rparr>"

text \<open>The literal both the \<^verbatim>\<open>useRef\<close> initialiser and \<^verbatim>\<open>stopConversation\<close> write.\<close>

definition emptyResources :: resources where
  "emptyResources =
     \<lparr>stream = None, inputAudioContext = None, outputAudioContext = None,
      outputGainNode = None, scriptProcessor = None, sources = [], nextStartTime = 0,
      animationFrameId = None, inputAnalyser = None, outputAnalyser = None\<rparr>"

definition initialComponent :: component where
  "initialComponent =
     \<lparr>isActive = False, isConnecting = False, transcription = [], currentTurn = emptyTurn,
      error = None, currentTurnRef = emptyTurn, sessionRef = None,
      audioResources = emptyResources, renderedIsActive = False,
      renderedIsConnecting = False, capturedIsActive = False, fresh = 0, effects = []\<rparr>"

definition emit :: "effect \<Rightarrow> component \<Rightarrow> component" where
  "emit e s = s\<lparr>effects := effects s @ [e]\<rparr>"

text \<open>A call through \<^verbatim>\<open>?.\<close>: made when the receiver is not \<^verbatim>\<open>null\<close>.\<close>

definition emitOpt :: "(handle \<Rightarrow> effect) \<Rightarrow> handle option \<Rightarrow> component \<Rightarrow> component" where
  "emitOpt f r s = (case r of None \<Rightarrow> s | Some h \<Rightarrow> emit (f h) s)"

section \<open>stopConversation\<close>

text \<open>
  \<^verbatim>\<open>stopConversation\<close>, statement by statement. \<^verbatim>\<open>session.close()\<close> is queued on the
  session promise; the trace records the request. \<^verbatim>\<open>if (animationFrameId)\<close> is a
  truthiness test, so an id of 0 is not cancelled.
\<close>

definition stopConversation :: "component \<Rightarrow> component" where
  "stopConversation s0 =
     (let s1 = s0\<lparr>isActive := False, error := None\<rparr>;
          s2 = (case sessionRef s1 of
                  None \<Rightarrow> s1
                | Some session \<Rightarrow> (emit (SessionClose session) s1)\<lparr>sessionRef := None\<rparr>);
          r = audioResources s2;
          s3 = emitOpt TrackStop (stream r) s2;
          s4 = emitOpt Disconnect (scriptProcessor r) s3;
          s5 = emitOpt Disconnect (inputAnalyser r) s4;
          s6 = emitOpt Disconnect (outputAnalyser r) s5;
          s7 = emitOpt Disconnect (outputGainNode r) s6;
          s8 = emitOpt ContextClose (inputAudioContext r) s7;
          s9 = emitOpt ContextClose (outputAudioContext r) s8;
          s10 = (case animationFrameId r of
                   None \<Rightarrow> s9
                 | Some n \<Rightarrow> if n \<noteq> 0 then emit (CancelAnimationFrame n) s9 else s9)
      in s10\<lparr>audioResources := emptyResources\<rparr>)"

section \<open>Server messages\<close>

text \<open>
  The part of the SDK's \<^verbatim>\<open>LiveServerMessage\<close> that the handler reads. Every property is
  optional in the SDK's types, so every field is an option (\<open>None\<close> is \<^verbatim>\<open>undefined\<close>).
\<close>

record Transcription =
  transcriptionText :: "string option"

record InlineData =
  inlineDataData :: "string option"

record Part =
  inlineData :: "InlineData option"

record Content =
  parts :: "Part list option"

record LiveServerContent =
  modelTurn :: "Content option"
  turnComplete :: "bool option"
  interrupted :: "bool option"
  inputTranscription :: "Transcription option"
  outputTranscription :: "Transcription option"

record LiveServerMessage =
  serverContent :: "LiveServerContent option"

text \<open>\<^verbatim>\<open>prev.model + x\<close> where \<^verbatim>\<open>x\<close> may be \<^verbatim>\<open>undefined\<close>: JavaScript appends the word.\<close>

definition jsConcat :: "string \<Rightarrow> string option \<Rightarrow> string" where
  "jsConcat a b = a @ (case b of None \<Rightarrow> ''undefined'' | Some t \<Rightarrow> t)"

definition truthy :: "bool option \<Rightarrow> bool" where
  "truthy b = (b = Some True)"

text \<open>
  The value of an optional chain: a string, \<^verbatim>\<open>undefined\<close>, or a \<^verbatim>\<open>TypeError\<close> where the chain
  indexes into \<^verbatim>\<open>undefined\<close> without a \<^verbatim>\<open>?.\<close> in front.
\<close>

datatype lookup = Raised | Undefined | Str string

text \<open>\<^verbatim>\<open>message.serverContent?.modelTurn?.parts[0]?.inlineData?.data\<close>\<close>

definition base64EncodedAudioString :: "LiveServerMessage \<Rightarrow> lookup" where
  "base64EncodedAudioString message =
     (case serverContent message of
        None \<Rightarrow> Undefined
      | Some sc \<Rightarrow>
          (case modelTurn sc of
             None \<Rightarrow> Undefined
           | Some mt \<Rightarrow>
               (case parts mt of
                  None \<Rightarrow> Raised
                | Some [] \<Rightarrow> Undefined
                | Some (p # _) \<Rightarrow>
                    (case inlineData p of
                       None \<Rightarrow> Undefined
                     | Some d \<Rightarrow>
                         (case inlineDataData d of None \<Rightarrow> Undefined | Some b \<Rightarrow> Str b)))))"

text \<open>
  \<^verbatim>\<open>../utils/audio\<close> is not among the sources, so its functions are parameters.
  \<open>decodeAudioData b\<close> stands for \<^verbatim>\<open>decodeAudioData(decode(b), ctx, 24000, 1)\<close>: the
  \<^verbatim>\<open>duration\<close> of the buffer it returns, or \<open>None\<close> when either call throws.
\<close>

record audio_utils =
  createBlob :: "real list \<Rightarrow> blob"
  decodeAudioData :: "string \<Rightarrow> real option"

text \<open>
  An \<^verbatim>\<open>async\<close> handler either runs to its end or stops at a throw (its promise rejects,
  and nobody handles the rejection). The state changes made before the throw stay.
\<close>

datatype outcome = Returned component | Threw component

fun stateOf :: "outcome \<Rightarrow> component" where
  "stateOf (Returned s) = s"
| "stateOf (Threw s) = s"

section \<open>startConversation and the session callbacks\<close>

datatype media_result = MediaGranted | MediaRejected

text \<open>
  \<^verbatim>\<open>startConversation\<close>, with the answer of \<^verbatim>\<open>getUserMedia\<close> as an argument. The objects it
  creates get the next seven handles. The other constructors are taken not to throw, and
  \<^verbatim>\<open>ai.live.connect\<close> returns a promise that is not awaited, so the \<^verbatim>\<open>catch\<close> block runs
  exactly when \<^verbatim>\<open>getUserMedia\<close> rejects. The callbacks are closures of the render that built
  this \<^verbatim>\<open>startConversation\<close>, so the \<^verbatim>\<open>isActive\<close> that \<^verbatim>\<open>onclose\<close> tests is the rendered one.
\<close>

definition startConversation :: "media_result \<Rightarrow> component \<Rightarrow> component" where
  "startConversation media s0 =
     (let s1 = emit GetUserMedia (s0\<lparr>isConnecting := True, error := None\<rparr>)
      in case media of
           MediaRejected \<Rightarrow>
             stopConversation
               ((emit (ConsoleError ''Failed to start live conversation:'') s1)
                  \<lparr>isConnecting := False,
                   error := Some ''Failed to connect to the live agent. Check microphone permissions.''\<rparr>)
         | MediaGranted \<Rightarrow>
             (let h = fresh s1;
                  r = (audioResources s1)
                        \<lparr>stream := Some h,
                         inputAudioContext := Some (h + 1),
                         outputAudioContext := Some (h + 2),
                         inputAnalyser := Some (h + 3),
                         outputAnalyser := Some (h + 4),
                         outputGainNode := Some (h + 5),
                         nextStartTime := 0,
                         sources := []\<rparr>
              in (emit (LiveConnect (h + 6)) s1)
                   \<lparr>audioResources := r, sessionRef := Some (h + 6),
                    capturedIsActive := renderedIsActive s1, fresh := h + 7\<rparr>))"

text \<open>
  \<^verbatim>\<open>onopen\<close>. \<^verbatim>\<open>requestAnimationFrame\<close> returns a non-zero id; the media-stream source node
  is created and connected but kept nowhere.
\<close>

definition onopen :: "component \<Rightarrow> component" where
  "onopen s0 =
     (let s1 = (emit (ConsoleLog ''Session opened'') s0)\<lparr>isConnecting := False, isActive := True\<rparr>;
          h = fresh s1;
          s2 = emit (RequestAnimationFrame (h + 1)) s1;
          r = (audioResources s2)\<lparr>animationFrameId := Some (h + 1), scriptProcessor := Some (h + 3)\<rparr>
      in s2\<lparr>audioResources := r, fresh := h + 4\<rparr>)"

text \<open>\<^verbatim>\<open>scriptProcessor.onaudioprocess\<close>: \<^verbatim>\<open>sessionRef.current?.then(s => s.sendRealtimeInput(..))\<close>\<close>

definition onaudioprocess :: "audio_utils \<Rightarrow> real list \<Rightarrow> component \<Rightarrow> component" where
  "onaudioprocess u inputData s =
     (let pcmBlob = createBlob u inputData
      in case sessionRef s of
           None \<Rightarrow> s
         | Some session \<Rightarrow> emit (SendRealtimeInput session pcmBlob) s)"

text \<open>The two \<^verbatim>\<open>setCurrentTurn(prev => ...)\<close> updates at the head of \<^verbatim>\<open>onmessage\<close>.\<close>

definition handleTranscriptions :: "LiveServerMessage \<Rightarrow> component \<Rightarrow> component" where
  "handleTranscriptions message s0 =
     (case serverContent message of
        None \<Rightarrow> s0
      | Some sc \<Rightarrow>
          (let s1 = (case outputTranscription sc of
                       None \<Rightarrow> s0
                     | Some t \<Rightarrow>
                         s0\<lparr>currentTurn := (currentTurn s0)
                              \<lparr>model := jsConcat (model (currentTurn s0)) (transcriptionText t)\<rparr>\<rparr>)
           in case inputTranscription sc of
                None \<Rightarrow> s1
              | Some t \<Rightarrow>
                  s1\<lparr>currentTurn := (currentTurn s1)
                       \<lparr>user := jsConcat (user (currentTurn s1)) (transcriptionText t)\<rparr>\<rparr>))"

text \<open>\<^verbatim>\<open>sources.add(source)\<close> and \<^verbatim>\<open>sources.delete(source)\<close> on the insertion-ordered set.\<close>

definition setAdd :: "handle \<Rightarrow> handle list \<Rightarrow> handle list" where
  "setAdd x xs = (if x \<in> set xs then xs else xs @ [x])"

definition setDelete :: "handle \<Rightarrow> handle list \<Rightarrow> handle list" where
  "setDelete x xs = removeAll x xs"

text \<open>
  The audio block of \<^verbatim>\<open>onmessage\<close>. \<open>now\<close> is what \<^verbatim>\<open>outputAudioContext.currentTime\<close> reads.
  \<^verbatim>\<open>nextStartTime\<close> is raised to the clock before the \<^verbatim>\<open>await\<close>; the source is created,
  started and added after it. The handler is run as one step: no other handler runs
  between the two halves.
\<close>

definition handleAudio :: "audio_utils \<Rightarrow> real \<Rightarrow> LiveServerMessage \<Rightarrow> component \<Rightarrow> outcome" where
  "handleAudio u now message s0 =
     (case base64EncodedAudioString message of
        Raised \<Rightarrow> Threw s0
      | Undefined \<Rightarrow> Returned s0
      | Str b \<Rightarrow>
          if b \<noteq> [] \<and> outputAudioContext (audioResources s0) \<noteq> None
               \<and> outputGainNode (audioResources s0) \<noteq> None
          then
            (let t = max (nextStartTime (audioResources s0)) now;
                 s1 = s0\<lparr>audioResources := (audioResources s0)\<lparr>nextStartTime := t\<rparr>\<rparr>
             in case decodeAudioData u b of
                  None \<Rightarrow> Threw s1
                | Some duration \<Rightarrow>
                    (let source = fresh s1;
                         s2 = emit (SourceStart source t duration) s1
                      in Returned
                           (s2\<lparr>audioResources := (audioResources s2)
                                  \<lparr>nextStartTime := t + duration,
                                   sources := setAdd source (sources (audioResources s2))\<rparr>,
                               fresh := source + 1\<rparr>)))
          else Returned s0)"

text \<open>
  The turn-completion block. It reads the turn from \<^verbatim>\<open>currentTurnRef.current\<close>; a string is
  truthy when it is not empty.
\<close>

definition handleTurnComplete :: "LiveServerMessage \<Rightarrow> component \<Rightarrow> component" where
  "handleTurnComplete message s0 =
     (case serverContent message of
        None \<Rightarrow> s0
      | Some sc \<Rightarrow>
          if truthy (turnComplete sc)
          then
            (let t = currentTurnRef s0;
                 s1 = (if user t \<noteq> [] \<or> model t \<noteq> []
                       then s0\<lparr>transcription := transcription s0 @ [\<lparr>user = user t, model = model t\<rparr>]\<rparr>
                       else s0)
             in s1\<lparr>currentTurn := emptyTurn\<rparr>)
          else s0)"

text \<open>The \<^verbatim>\<open>for (const source of sources.values())\<close> loop: stop and delete, in set order.\<close>

fun stopSources :: "handle list \<Rightarrow> component \<Rightarrow> component" where
  "stopSources [] s = s"
| "stopSources (source # rest) s =
     stopSources rest
       ((emit (SourceStop source) s)
          \<lparr>audioResources := (audioResources s)
             \<lparr>sources := setDelete source (sources (audioResources s))\<rparr>\<rparr>)"

definition handleInterrupted :: "LiveServerMessage \<Rightarrow> component \<Rightarrow> component" where
  "handleInterrupted message s0 =
     (case serverContent message of
        None \<Rightarrow> s0
      | Some sc \<Rightarrow>
          if truthy (interrupted sc)
          then
            (let s1 = stopSources (sources (audioResources s0)) s0
             in s1\<lparr>audioResources := (audioResources s1)\<lparr>nextStartTime := 0\<rparr>\<rparr>)
          else s0)"

text \<open>\<^verbatim>\<open>onmessage\<close>: the four blocks in the order of the source.\<close>

definition onmessage :: "audio_utils \<Rightarrow> real \<Rightarrow> LiveServerMessage \<Rightarrow> component \<Rightarrow> outcome" where
  "onmessage u now message s =
     (case handleAudio u now message (handleTranscriptions message s) of
        Threw s' \<Rightarrow> Threw s'
      | Returned s' \<Rightarrow> Returned (handleInterrupted message (handleTurnComplete message s')))"

definition onerror :: "component \<Rightarrow> component" where
  "onerror s =
     stopConversation
       ((emit (ConsoleError ''Live session error:'') s)
          \<lparr>error := Some ''Live session encountered an error. Please try again.''\<rparr>)"

text \<open>\<^verbatim>\<open>onclose\<close>: \<^verbatim>\<open>if (isActive)\<close> tests the value the callback closed over.\<close>

definition onclose :: "component \<Rightarrow> component" where
  "onclose s =
     (let s1 = emit (ConsoleLog ''Session closed:'') s
      in if capturedIsActive s1 then stopConversation s1 else s1)"

text \<open>The \<^verbatim>\<open>ended\<close> listener of a source.\<close>

definition ended :: "handle \<Rightarrow> component \<Rightarrow> component" where
  "ended source s =
     s\<lparr>audioResources := (audioResources s)
          \<lparr>sources := setDelete source (sources (audioResources s))\<rparr>\<rparr>"

text \<open>\<^verbatim>\<open>animateVisualization\<close>: the drawing leaves no state; the next frame is requested.\<close>

definition animateVisualization :: "component \<Rightarrow> component" where
  "animateVisualization s =
     (let h = fresh s
      in (emit (RequestAnimationFrame (h + 1)) s)
           \<lparr>audioResources := (audioResources s)\<lparr>animationFrameId := Some (h + 1)\<rparr>,
            fresh := h + 2\<rparr>)"

definition toggleConversation :: "media_result \<Rightarrow> component \<Rightarrow> component" where
  "toggleConversation media s =
     (if renderedIsActive s \<or> renderedIsConnecting s
      then stopConversation s
      else startConversation media s)"

text \<open>A render followed by its effects: closures and the ref catch up with the state.\<close>

definition render :: "component \<Rightarrow> component" where
  "render s =
     s\<lparr>renderedIsActive := isActive s, renderedIsConnecting := isConnecting s,
       currentTurnRef := currentTurn s\<rparr>"

section \<open>The event loop\<close>

text \<open>
  Everything that can happen to the component, one event at a time on the single
  JavaScript thread. The button is \<^verbatim>\<open>disabled\<close> while the rendered \<^verbatim>\<open>isConnecting\<close> holds; the
  platform calls \<^verbatim>\<open>onaudioprocess\<close> only on a script processor that exists, and an animation
  callback only when one is requested.
\<close>

datatype event =
    Click media_result
  | OnOpen
  | OnMessage real LiveServerMessage
  | OnError
  | OnClose
  | AudioProcess "real list"
  | SourceEnded handle
  | AnimationFrame
  | Render

fun step :: "audio_utils \<Rightarrow> event \<Rightarrow> component \<Rightarrow> component" where
  "step u (Click media) s = (if renderedIsConnecting s then s else toggleConversation media s)"
| "step u OnOpen s = onopen s"
| "step u (OnMessage now message) s = stateOf (onmessage u now message s)"
| "step u OnError s = onerror s"
| "step u OnClose s = onclose s"
| "step u (AudioProcess inputData) s =
     (if scriptProcessor (audioResources s) = None then s else onaudioprocess u inputData s)"
| "step u (SourceEnded source) s = ended source s"
| "step u AnimationFrame s =
     (if animationFrameId (audioResources s) = None then s else animateVisualization s)"
| "step u Render s = render s"

fun run :: "audio_utils \<Rightarrow> event list \<Rightarrow> component \<Rightarrow> component" where
  "run u [] s = s"
| "run u (e # es) s = run u es (step u e s)"

section \<open>Reading traces and messages\<close>

text \<open>What the message flags are, as the handler tests them.\<close>

definition isTurnComplete :: "LiveServerMessage \<Rightarrow> bool" where
  "isTurnComplete message =
     (case serverContent message of None \<Rightarrow> False | Some sc \<Rightarrow> truthy (turnComplete sc))"

definition isInterrupted :: "LiveServerMessage \<Rightarrow> bool" where
  "isInterrupted message =
     (case serverContent message of None \<Rightarrow> False | Some sc \<Rightarrow> truthy (interrupted sc))"

text \<open>What a message appends to the local and to the remote accumulator.\<close>

definition userDelta :: "LiveServerMessage \<Rightarrow> string" where
  "userDelta message =
     (case serverContent message of
        None \<Rightarrow> []
      | Some sc \<Rightarrow>
          (case inputTranscription sc of
             None \<Rightarrow> []
           | Some t \<Rightarrow> jsConcat [] (transcriptionText t)))"

definition modelDelta :: "LiveServerMessage \<Rightarrow> string" where
  "modelDelta message =
     (case serverContent message of
        None \<Rightarrow> []
      | Some sc \<Rightarrow>
          (case outputTranscription sc of
             None \<Rightarrow> []
           | Some t \<Rightarrow> jsConcat [] (transcriptionText t)))"

text \<open>The duration of the audio chunk a message carries, when it carries one that decodes.\<close>

definition chunkDuration :: "audio_utils \<Rightarrow> LiveServerMessage \<Rightarrow> real option" where
  "chunkDuration u message =
     (case base64EncodedAudioString message of
        Str b \<Rightarrow> if b \<noteq> [] then decodeAudioData u b else None
      | _ \<Rightarrow> None)"

text \<open>Start time and duration of every \<^verbatim>\<open>source.start\<close> in a trace, in order.\<close>

fun scheduled :: "effect list \<Rightarrow> (real \<times> real) list" where
  "scheduled [] = []"
| "scheduled (SourceStart h t d # es) = (t, d) # scheduled es"
| "scheduled (e # es) = scheduled es"

text \<open>The frames handed to \<^verbatim>\<open>sendRealtimeInput\<close> in a trace, in order.\<close>

fun sent :: "effect list \<Rightarrow> blob list" where
  "sent [] = []"
| "sent (SendRealtimeInput h b # es) = b # sent es"
| "sent (e # es) = sent es"

text \<open>The frames of the capture events that arrive while \<open>isActive\<close> holds.\<close>

fun capturedWhileOpen :: "audio_utils \<Rightarrow> event list \<Rightarrow> component \<Rightarrow> blob list" where
  "capturedWhileOpen u [] s = []"
| "capturedWhileOpen u (AudioProcess inputData # es) s =
     (if isActive s then [createBlob u inputData] else [])
     @ capturedWhileOpen u es (step u (AudioProcess inputData) s)"
| "capturedWhileOpen u (e # es) s = capturedWhileOpen u es (step u e s)"

text \<open>The calls made through \<^verbatim>\<open>?.\<close> on a resource, and all calls of one \<^verbatim>\<open>stopConversation\<close>.\<close>

definition calls :: "(handle \<Rightarrow> effect) \<Rightarrow> handle option \<Rightarrow> effect list" where
  "calls f r = (case r of None \<Rightarrow> [] | Some h \<Rightarrow> [f h])"

definition stopEffects :: "component \<Rightarrow> effect list" where
  "stopEffects s =
     calls SessionClose (sessionRef s)
     @ calls TrackStop (stream (audioResources s))
     @ calls Disconnect (scriptProcessor (audioResources s))
     @ calls Disconnect (inputAnalyser (audioResources s))
     @ calls Disconnect (outputAnalyser (audioResources s))
     @ calls Disconnect (outputGainNode (audioResources s))
     @ calls ContextClose (inputAudioContext (audioResources s))
     @ calls ContextClose (outputAudioContext (audioResources s))
     @ (case animationFrameId (audioResources s) of
          None \<Rightarrow> []
        | Some n \<Rightarrow> if n \<noteq> 0 then [CancelAnimationFrame n] else [])"

text \<open>
  The start times that \<open>max\<close>-then-advance scheduling gives to chunks arriving at the
  clock readings paired with their durations, from a first \<^verbatim>\<open>nextStartTime\<close> of \<open>t\<close>.
\<close>

fun plan :: "real \<Rightarrow> (real \<times> real) list \<Rightarrow> (real \<times> real) list" where
  "plan t [] = []"
| "plan t ((now, d) # cs) = (max t now, d) # plan (max t now + d) cs"

text \<open>Delivering messages one after the other, each with the clock reading at its arrival.\<close>

definition deliver :: "(real \<times> LiveServerMessage) list \<Rightarrow> event list" where
  "deliver ms = map (\<lambda>(now, message). OnMessage now message) ms"

section \<open>Example inputs\<close>

text \<open>Messages carrying one thing each, and stand-ins for the audio utilities.\<close>

definition noContent :: LiveServerContent where
  "noContent =
     \<lparr>modelTurn = None, turnComplete = None, interrupted = None,
      inputTranscription = None, outputTranscription = None\<rparr>"

definition audioMessage :: "string \<Rightarrow> LiveServerMessage" where
  "audioMessage b =
     \<lparr>serverContent = Some (noContent
        \<lparr>modelTurn := Some \<lparr>parts = Some [\<lparr>inlineData = Some \<lparr>inlineDataData = Some b\<rparr>\<rparr>]\<rparr>\<rparr>)\<rparr>"

definition inputMessage :: "string \<Rightarrow> LiveServerMessage" where
  "inputMessage t =
     \<lparr>serverContent = Some (noContent\<lparr>inputTranscription := Some \<lparr>transcriptionText = Some t\<rparr>\<rparr>)\<rparr>"

definition outputMessage :: "string \<Rightarrow> LiveServerMessage" where
  "outputMessage t =
     \<lparr>serverContent = Some (noContent\<lparr>outputTranscription := Some \<lparr>transcriptionText = Some t\<rparr>\<rparr>)\<rparr>"

definition turnCompleteMessage :: LiveServerMessage where
  "turnCompleteMessage = \<lparr>serverContent = Some (noContent\<lparr>turnComplete := Some True\<rparr>)\<rparr>"

definition interruptedMessage :: LiveServerMessage where
  "interruptedMessage = \<lparr>serverContent = Some (noContent\<lparr>interrupted := Some True\<rparr>)\<rparr>"

text \<open>
  A decoder under which the payload \<open>''AAAA''\<close> is 500 ms of audio, \<open>''BBBB''\<close> is 300 ms
  and every other payload is corrupt.
\<close>

definition demoUtils :: audio_utils where
  "demoUtils =
     \<lparr>createBlob = (\<lambda>samples. replicate (length samples) CHR ''x''),
      decodeAudioData = (\<lambda>b. if b = ''AAAA'' then Some (1 / 2)
                               else if b = ''BBBB'' then Some (3 / 10) else None)\<rparr>"

text \<open>Clock reading and decoded duration of each delivered message.\<close>

definition arrivals :: "audio_utils \<Rightarrow> (real \<times> LiveServerMessage) list \<Rightarrow> (real \<times> real) list" where
  "arrivals u ms = map (\<lambda>(now, m). (now, the (chunkDuration u m))) ms"

text \<open>An open session in which the two demo chunks have been scheduled.\<close>

definition playingComponent :: component where
  "playingComponent =
     run demoUtils (deliver [(1, audioMessage ''AAAA''), (6 / 5, audioMessage ''BBBB'')])
       (onopen (startConversation MediaGranted initialComponent))"

text \<open>The deltas of the turn \<open>(hello, hi there)\<close>, each with its clock reading.\<close>

definition helloDeltas :: "(real \<times> LiveServerMessage) list" where
  "helloDeltas =
     [(1, inputMessage ''hel''), (1, inputMessage ''lo''),
      (2, outputMessage ''hi ''), (2, outputMessage ''there'')]"

text \<open>An open session that received those deltas and rendered; then the turn completed.\<close>

definition talkedComponent :: component where
  "talkedComponent =
     render (run demoUtils (deliver helloDeltas)
       (onopen (startConversation MediaGranted initialComponent)))"

definition loggedComponent :: component where
  "loggedComponent = stateOf (onmessage demoUtils 3 turnCompleteMessage talkedComponent)"

text \<open>The script processor exists exactly while the session is open.\<close>

definition captureMatchesOpen :: "component \<Rightarrow> bool" where
  "captureMatchesOpen s = (isActive s = (scriptProcessor (audioResources s) \<noteq> None))"

text \<open>A chunk whose payload does not decode, alone and together with the turn-complete flag.\<close>

definition corruptMessage :: LiveServerMessage where
  "corruptMessage = audioMessage ''!!''"

definition corruptTurnMessage :: LiveServerMessage where
  "corruptTurnMessage =
     \<lparr>serverContent = Some (noContent
        \<lparr>modelTurn := Some \<lparr>parts = Some [\<lparr>inlineData = Some \<lparr>inlineDataData = Some ''!!''\<rparr>\<rparr>]\<rparr>,
         turnComplete := Some True\<rparr>)\<rparr>"

section \<open>The earlier revision of the component\<close>

text \<open>
  \<^verbatim>\<open>src/components/LiveConversation.tsx\<close> holds an earlier revision of the same component
  (the default export). Its handlers are embedded here where they differ from the ones
  above; they work on the same record, of which they never touch the error, the analysers
  and the animation frame.
\<close>

text \<open>
  \<^verbatim>\<open>stopConversation\<close> of the earlier revision: no error state, no analysers, no animation
  frame; the gain node is disconnected first and the script processor last. Its resource
  object has only the first seven fields, so the reset literal is the same all-\<^verbatim>\<open>null\<close> one.
\<close>

definition stopConversation_default :: "component \<Rightarrow> component" where
  "stopConversation_default s0 =
     (let s1 = s0\<lparr>isActive := False\<rparr>;
          s2 = (case sessionRef s1 of
                  None \<Rightarrow> s1
                | Some session \<Rightarrow> (emit (SessionClose session) s1)\<lparr>sessionRef := None\<rparr>);
          r = audioResources s2;
          s3 = emitOpt TrackStop (stream r) s2;
          s4 = emitOpt Disconnect (outputGainNode r) s3;
          s5 = emitOpt ContextClose (inputAudioContext r) s4;
          s6 = emitOpt ContextClose (outputAudioContext r) s5;
          s7 = emitOpt Disconnect (scriptProcessor r) s6
      in s7\<lparr>audioResources := emptyResources\<rparr>)"

text \<open>\<^verbatim>\<open>message.serverContent?.modelTurn?.parts[0]?.inlineData.data\<close>: no \<^verbatim>\<open>?.\<close> before \<^verbatim>\<open>data\<close>.\<close>

definition audioData_default :: "LiveServerMessage \<Rightarrow> lookup" where
  "audioData_default message =
     (case serverContent message of
        None \<Rightarrow> Undefined
      | Some sc \<Rightarrow>
          (case modelTurn sc of
             None \<Rightarrow> Undefined
           | Some mt \<Rightarrow>
               (case parts mt of
                  None \<Rightarrow> Raised
                | Some [] \<Rightarrow> Undefined
                | Some (p # _) \<Rightarrow>
                    (case inlineData p of
                       None \<Rightarrow> Raised
                     | Some d \<Rightarrow>
                         (case inlineDataData d of None \<Rightarrow> Undefined | Some b \<Rightarrow> Str b)))))"

text \<open>The local delta is appended first, then the remote one.\<close>

definition handleTranscriptions_default :: "LiveServerMessage \<Rightarrow> component \<Rightarrow> component" where
  "handleTranscriptions_default message s0 =
     (case serverContent message of
        None \<Rightarrow> s0
      | Some sc \<Rightarrow>
          (let s1 = (case inputTranscription sc of
                       None \<Rightarrow> s0
                     | Some t \<Rightarrow>
                         s0\<lparr>currentTurn := (currentTurn s0)
                              \<lparr>user := jsConcat (user (currentTurn s0)) (transcriptionText t)\<rparr>\<rparr>)
           in case outputTranscription sc of
                None \<Rightarrow> s1
              | Some t \<Rightarrow>
                  s1\<lparr>currentTurn := (currentTurn s1)
                       \<lparr>model := jsConcat (model (currentTurn s1)) (transcriptionText t)\<rparr>\<rparr>))"

text \<open>The turn-completion block has no guard: whatever the ref holds is appended.\<close>

definition handleTurnComplete_default :: "LiveServerMessage \<Rightarrow> component \<Rightarrow> component" where
  "handleTurnComplete_default message s0 =
     (case serverContent message of
        None \<Rightarrow> s0
      | Some sc \<Rightarrow>
          if truthy (turnComplete sc)
          then s0\<lparr>transcription := transcription s0 @ [currentTurnRef s0],
                  currentTurn := emptyTurn\<rparr>
          else s0)"

text \<open>
  The audio block tests the payload and the gain node only; the output context is the
  variable the callback closed over.
\<close>

definition handleAudio_default ::
  "audio_utils \<Rightarrow> real \<Rightarrow> LiveServerMessage \<Rightarrow> component \<Rightarrow> outcome" where
  "handleAudio_default u now message s0 =
     (case audioData_default message of
        Raised \<Rightarrow> Threw s0
      | Undefined \<Rightarrow> Returned s0
      | Str b \<Rightarrow>
          if b \<noteq> [] \<and> outputGainNode (audioResources s0) \<noteq> None
          then
            (let t = max (nextStartTime (audioResources s0)) now;
                 s1 = s0\<lparr>audioResources := (audioResources s0)\<lparr>nextStartTime := t\<rparr>\<rparr>
             in case decodeAudioData u b of
                  None \<Rightarrow> Threw s1
                | Some duration \<Rightarrow>
                    (let source = fresh s1;
                         s2 = emit (SourceStart source t duration) s1
                      in Returned
                           (s2\<lparr>audioResources := (audioResources s2)
                                  \<lparr>nextStartTime := t + duration,
                                   sources := setAdd source (sources (audioResources s2))\<rparr>,
                               fresh := source + 1\<rparr>)))
          else Returned s0)"

text \<open>\<^verbatim>\<open>onmessage\<close>: transcripts, turn completion, then audio. There is no interruption block.\<close>

definition onmessage_default ::
  "audio_utils \<Rightarrow> real \<Rightarrow> LiveServerMessage \<Rightarrow> component \<Rightarrow> outcome" where
  "onmessage_default u now message s =
     handleAudio_default u now message
       (handleTurnComplete_default message (handleTranscriptions_default message s))"

text \<open>Delivering messages to the earlier revision, and the helpers that read its runs.\<close>

fun deliver_default ::
  "audio_utils \<Rightarrow> (real \<times> LiveServerMessage) list \<Rightarrow> component \<Rightarrow> component" where
  "deliver_default u [] s = s"
| "deliver_default u ((now, message) # ms) s =
     deliver_default u ms (stateOf (onmessage_default u now message s))"

definition chunkDuration_default :: "audio_utils \<Rightarrow> LiveServerMessage \<Rightarrow> real option" where
  "chunkDuration_default u message =
     (case audioData_default message of
        Str b \<Rightarrow> if b \<noteq> [] then decodeAudioData u b else None
      | _ \<Rightarrow> None)"

definition stopEffects_default :: "component \<Rightarrow> effect list" where
  "stopEffects_default s =
     calls SessionClose (sessionRef s)
     @ calls TrackStop (stream (audioResources s))
     @ calls Disconnect (outputGainNode (audioResources s))
     @ calls ContextClose (inputAudioContext (audioResources s))
     @ calls ContextClose (outputAudioContext (audioResources s))
     @ calls Disconnect (scriptProcessor (audioResources s))"

section \<open>Basic facts\<close>

lemma effects_emit [simp]: "effects (emit e s) = effects s @ [e]"
  by (simp add: emit_def)


lemma emitOpt_upd: "emitOpt f r (s\<lparr>effects := es\<rparr>) = s\<lparr>effects := es @ calls f r\<rparr>"
  by (cases r) (simp_all add: emitOpt_def calls_def emit_def)

lemma stopConversation_closed:
  "stopConversation s =
     s\<lparr>isActive := False, error := None, sessionRef := None,
       audioResources := emptyResources, effects := effects s @ stopEffects s\<rparr>"
proof -
  define r where "r = audioResources s"
  have a: "(case sessionRef (s\<lparr>isActive := False, error := None\<rparr>) of
              None \<Rightarrow> s\<lparr>isActive := False, error := None\<rparr>
            | Some session \<Rightarrow>
                (emit (SessionClose session) (s\<lparr>isActive := False, error := None\<rparr>))
                  \<lparr>sessionRef := None\<rparr>)
           = s\<lparr>isActive := False, error := None, sessionRef := None,
               effects := effects s @ calls SessionClose (sessionRef s)\<rparr>"
    by (cases "sessionRef s") (simp_all add: calls_def emit_def)
  have b: "audioResources (s\<lparr>isActive := False, error := None, sessionRef := None,
                              effects := es\<rparr>) = r" for es
    by (simp add: r_def)
  show ?thesis
    unfolding stopConversation_def Let_def a b emitOpt_upd
    by (cases "animationFrameId r")
       (simp_all add: stopEffects_def r_def[symmetric] emit_def)
qed

lemma stopEffects_after_stop:
  "stopEffects (s\<lparr>isActive := a, error := b, sessionRef := None,
                  audioResources := emptyResources, effects := c\<rparr>) = []"
  by (simp add: stopEffects_def calls_def emptyResources_def)

lemma stopConversation_twice: "stopConversation (stopConversation s) = stopConversation s"
  by (simp add: stopConversation_closed[of "s\<lparr>isActive := False, error := None,
       sessionRef := None, audioResources := emptyResources,
       effects := effects s @ stopEffects s\<rparr>"]
      stopConversation_closed[of s] stopEffects_after_stop)

lemma calls_member: "r = Some h \<Longrightarrow> f h \<in> set (calls f r)"
  by (simp add: calls_def)

lemma startConversation_rejected:
  "startConversation MediaRejected s =
     s\<lparr>isActive := False, isConnecting := False, error := None, sessionRef := None,
       audioResources := emptyResources,
       effects := effects s @ [GetUserMedia, ConsoleError ''Failed to start live conversation:'']
                   @ stopEffects s\<rparr>"
  by (simp add: startConversation_def Let_def stopConversation_closed emit_def
        stopEffects_def)

lemma startConversation_granted:
  "startConversation MediaGranted s =
     s\<lparr>isConnecting := True, error := None, sessionRef := Some (fresh s + 6),
       audioResources := (audioResources s)
          \<lparr>stream := Some (fresh s),
           inputAudioContext := Some (fresh s + 1),
           outputAudioContext := Some (fresh s + 2),
           outputGainNode := Some (fresh s + 5),
           sources := [],
           nextStartTime := 0,
           inputAnalyser := Some (fresh s + 3),
           outputAnalyser := Some (fresh s + 4)\<rparr>,
       capturedIsActive := renderedIsActive s,
       fresh := fresh s + 7,
       effects := effects s @ [GetUserMedia, LiveConnect (fresh s + 6)]\<rparr>"
  by (simp add: startConversation_def Let_def emit_def)

lemma onopen_closed:
  "onopen s =
     s\<lparr>isActive := True, isConnecting := False,
       audioResources := (audioResources s)
          \<lparr>scriptProcessor := Some (fresh s + 3), animationFrameId := Some (fresh s + 1)\<rparr>,
       fresh := fresh s + 4,
       effects := effects s @ [ConsoleLog ''Session opened'', RequestAnimationFrame (fresh s + 1)]\<rparr>"
  by (simp add: onopen_def Let_def emit_def)

lemma onerror_closed:
  "onerror s =
     s\<lparr>isActive := False, error := None, sessionRef := None,
       audioResources := emptyResources,
       effects := effects s @ [ConsoleError ''Live session error:''] @ stopEffects s\<rparr>"
  by (simp add: onerror_def stopConversation_closed emit_def stopEffects_def)

lemma onclose_closed:
  "onclose s =
     (if capturedIsActive s
      then s\<lparr>isActive := False, error := None, sessionRef := None,
             audioResources := emptyResources,
             effects := effects s @ [ConsoleLog ''Session closed:''] @ stopEffects s\<rparr>
      else s\<lparr>effects := effects s @ [ConsoleLog ''Session closed:'']\<rparr>)"
  by (simp add: onclose_def Let_def stopConversation_closed emit_def stopEffects_def)

lemma handleTranscriptions_closed:
  "handleTranscriptions m s =
     s\<lparr>currentTurn := \<lparr>user = user (currentTurn s) @ userDelta m,
                        model = model (currentTurn s) @ modelDelta m\<rparr>\<rparr>"
  by (simp add: handleTranscriptions_def userDelta_def modelDelta_def jsConcat_def Let_def
           split: option.splits)

lemma handleTurnComplete_closed:
  "handleTurnComplete m s =
     (if isTurnComplete m
      then s\<lparr>transcription := transcription s
                 @ (if user (currentTurnRef s) \<noteq> [] \<or> model (currentTurnRef s) \<noteq> []
                    then [currentTurnRef s] else []),
             currentTurn := emptyTurn\<rparr>
      else s)"
  by (simp add: handleTurnComplete_def isTurnComplete_def Let_def split: option.splits)

lemma stopSources_closed:
  "stopSources xs s =
     s\<lparr>audioResources := (audioResources s)
          \<lparr>sources := filter (\<lambda>x. x \<notin> set xs) (sources (audioResources s))\<rparr>,
       effects := effects s @ map SourceStop xs\<rparr>"
proof (induction xs arbitrary: s)
  case Nil
  show ?case by simp
next
  case (Cons x xs)
  have "filter (\<lambda>y. y \<notin> set xs) (removeAll x ys) = filter (\<lambda>y. y \<notin> set (x # xs)) ys" for ys
    by (induction ys) auto
  then show ?case
    by (simp add: Cons.IH setDelete_def emit_def)
qed

lemma handleInterrupted_closed:
  "handleInterrupted m s =
     (if isInterrupted m
      then s\<lparr>audioResources := (audioResources s)\<lparr>sources := [], nextStartTime := 0\<rparr>,
             effects := effects s @ map SourceStop (sources (audioResources s))\<rparr>
      else s)"
  by (simp add: handleInterrupted_def isInterrupted_def Let_def stopSources_closed
           split: option.splits)

lemma chunkDuration_SomeD:
  "chunkDuration u m = Some d \<Longrightarrow>
     \<exists>b. base64EncodedAudioString m = Str b \<and> b \<noteq> [] \<and> decodeAudioData u b = Some d"
  by (cases "base64EncodedAudioString m") (simp_all add: chunkDuration_def split: if_splits)

lemma handleAudio_chunk:
  assumes "chunkDuration u m = Some d"
    and "outputAudioContext (audioResources s) \<noteq> None"
    and "outputGainNode (audioResources s) \<noteq> None"
  shows "handleAudio u now m s =
     Returned (s\<lparr>audioResources := (audioResources s)
                   \<lparr>sources := setAdd (fresh s) (sources (audioResources s)),
                    nextStartTime := max (nextStartTime (audioResources s)) now + d\<rparr>,
                 fresh := fresh s + 1,
                 effects := effects s
                    @ [SourceStart (fresh s) (max (nextStartTime (audioResources s)) now) d]\<rparr>)"
proof -
  from assms(1) obtain b where b: "base64EncodedAudioString m = Str b" "b \<noteq> []"
    "decodeAudioData u b = Some d"
    using chunkDuration_SomeD by blast
  show ?thesis
    unfolding handleAudio_def b lookup.case
    using assms(2,3) b(2,3)
    by (simp add: Let_def emit_def)
qed

text \<open>The component after a granted start and the \<^verbatim>\<open>onopen\<close> callback, from the first mount.\<close>

lemma opened_component:
  "onopen (startConversation MediaGranted initialComponent) =
     \<lparr>isActive = True, isConnecting = False, transcription = [],
      currentTurn = emptyTurn, error = None,
      currentTurnRef = emptyTurn, sessionRef = Some 6,
      audioResources =
        \<lparr>stream = Some 0, inputAudioContext = Some 1,
         outputAudioContext = Some 2, outputGainNode = Some 5,
         scriptProcessor = Some 10, sources = [], nextStartTime = 0,
         animationFrameId = Some 8, inputAnalyser = Some 3,
         outputAnalyser = Some 4\<rparr>,
      renderedIsActive = False, renderedIsConnecting = False,
      capturedIsActive = False, fresh = 11,
      effects =
        [GetUserMedia, LiveConnect 6, ConsoleLog ''Session opened'',
         RequestAnimationFrame 8]\<rparr>"
  by (simp add: onopen_def startConversation_def initialComponent_def emptyResources_def
        Let_def emit_def)

section \<open>Stopping twice\<close>

text \<open>
  Claim C3. \<^verbatim>\<open>stopConversation\<close> can be applied to every component state and has no failing
  branch: each call it makes on a resource goes through \<^verbatim>\<open>?.\<close> or an \<^verbatim>\<open>if\<close>. After one call the
  resource object is the all-\<^verbatim>\<open>null\<close> literal, the session ref is \<^verbatim>\<open>null\<close> and \<open>isActive\<close> is
  false; the microphone stream that was held had its tracks stopped, both audio contexts
  that were held were closed, every held graph node (script processor, both analysers, gain
  node) was disconnected and the held session was asked to close. A second call changes
  nothing at all, the trace included: it makes no call on any resource.
\<close>

theorem stop_idempotent_and_releasing:
  "stopConversation (stopConversation s) = stopConversation s
   \<and> audioResources (stopConversation s) = emptyResources
   \<and> sessionRef (stopConversation s) = None
   \<and> \<not> isActive (stopConversation s)
   \<and> (\<forall>h. sessionRef s = Some h \<longrightarrow> SessionClose h \<in> set (effects (stopConversation s)))
   \<and> (\<forall>h. stream (audioResources s) = Some h
          \<longrightarrow> TrackStop h \<in> set (effects (stopConversation s)))
   \<and> (\<forall>h. inputAudioContext (audioResources s) = Some h
          \<longrightarrow> ContextClose h \<in> set (effects (stopConversation s)))
   \<and> (\<forall>h. outputAudioContext (audioResources s) = Some h
          \<longrightarrow> ContextClose h \<in> set (effects (stopConversation s)))
   \<and> (\<forall>h. scriptProcessor (audioResources s) = Some h
            \<or> inputAnalyser (audioResources s) = Some h
            \<or> outputAnalyser (audioResources s) = Some h
            \<or> outputGainNode (audioResources s) = Some h
          \<longrightarrow> Disconnect h \<in> set (effects (stopConversation s)))"
proof -
  let ?t = "stopConversation s"
  have e: "set (effects ?t) = set (effects s) \<union> set (stopEffects s)"
    by (simp add: stopConversation_closed)
  have 1: "stopConversation ?t = ?t" by (rule stopConversation_twice)
  have 2: "audioResources ?t = emptyResources" "sessionRef ?t = None" "\<not> isActive ?t"
    by (simp_all add: stopConversation_closed)
  have 3: "\<forall>h. sessionRef s = Some h \<longrightarrow> SessionClose h \<in> set (effects ?t)"
    by (simp add: e stopEffects_def calls_member)
  have 4: "\<forall>h. stream (audioResources s) = Some h \<longrightarrow> TrackStop h \<in> set (effects ?t)"
    by (simp add: e stopEffects_def calls_member)
  have 5: "\<forall>h. inputAudioContext (audioResources s) = Some h
              \<longrightarrow> ContextClose h \<in> set (effects ?t)"
    by (simp add: e stopEffects_def calls_member)
  have 6: "\<forall>h. outputAudioContext (audioResources s) = Some h
              \<longrightarrow> ContextClose h \<in> set (effects ?t)"
    by (simp add: e stopEffects_def calls_member)
  have 7: "\<forall>h. scriptProcessor (audioResources s) = Some h
            \<or> inputAnalyser (audioResources s) = Some h
            \<or> outputAnalyser (audioResources s) = Some h
            \<or> outputGainNode (audioResources s) = Some h
          \<longrightarrow> Disconnect h \<in> set (effects ?t)"
    by (auto simp add: e stopEffects_def calls_member)
  from 1 2 3 4 5 6 7 show ?thesis by blast
qed

text \<open>
  The theorem at the component of an open session: the stream 0, the contexts 1 and 2, the
  nodes 3, 4, 5 and 10 and the session 6 are all released by the first stop.
\<close>

theorem stop_idempotent_and_releasing_witness:
  "(let s = onopen (startConversation MediaGranted initialComponent)
    in sessionRef s = Some 6 \<and> SessionClose 6 \<in> set (effects (stopConversation s))
       \<and> stream (audioResources s) = Some 0 \<and> TrackStop 0 \<in> set (effects (stopConversation s))
       \<and> inputAudioContext (audioResources s) = Some 1
       \<and> ContextClose 1 \<in> set (effects (stopConversation s))
       \<and> outputAudioContext (audioResources s) = Some 2
       \<and> ContextClose 2 \<in> set (effects (stopConversation s))
       \<and> scriptProcessor (audioResources s) = Some 10
       \<and> Disconnect 10 \<in> set (effects (stopConversation s))
       \<and> stopConversation (stopConversation s) = stopConversation s)"
  using stop_idempotent_and_releasing [of "onopen (startConversation MediaGranted initialComponent)"]
  by (simp add: opened_component)

section \<open>Scheduling of inbound audio\<close>

lemma scheduled_append: "scheduled (xs @ ys) = scheduled xs @ scheduled ys"
  by (induction xs rule: scheduled.induct) simp_all

lemma onmessage_chunk:
  assumes "chunkDuration u m = Some d"
    and "outputAudioContext (audioResources s) \<noteq> None"
    and "outputGainNode (audioResources s) \<noteq> None"
    and "\<not> isInterrupted m"
  shows "effects (stateOf (onmessage u now m s)) =
           effects s @ [SourceStart (fresh s) (max (nextStartTime (audioResources s)) now) d]"
    and "audioResources (stateOf (onmessage u now m s)) =
           (audioResources s)
             \<lparr>sources := setAdd (fresh s) (sources (audioResources s)),
              nextStartTime := max (nextStartTime (audioResources s)) now + d\<rparr>"
proof -
  let ?s1 = "handleTranscriptions m s"
  have r: "audioResources ?s1 = audioResources s" "fresh ?s1 = fresh s" "effects ?s1 = effects s"
    by (simp_all add: handleTranscriptions_closed)
  have a: "handleAudio u now m ?s1 =
     Returned (?s1\<lparr>audioResources := (audioResources s)
                   \<lparr>sources := setAdd (fresh s) (sources (audioResources s)),
                    nextStartTime := max (nextStartTime (audioResources s)) now + d\<rparr>,
                 fresh := fresh s + 1,
                 effects := effects s
                    @ [SourceStart (fresh s) (max (nextStartTime (audioResources s)) now) d]\<rparr>)"
    using handleAudio_chunk[of u m d ?s1 now] assms(1,2,3) by (simp add: r)
  show "effects (stateOf (onmessage u now m s)) =
           effects s @ [SourceStart (fresh s) (max (nextStartTime (audioResources s)) now) d]"
    by (simp add: onmessage_def a handleInterrupted_closed assms(4) handleTurnComplete_closed)
  show "audioResources (stateOf (onmessage u now m s)) =
           (audioResources s)
             \<lparr>sources := setAdd (fresh s) (sources (audioResources s)),
              nextStartTime := max (nextStartTime (audioResources s)) now + d\<rparr>"
    by (simp add: onmessage_def a handleInterrupted_closed assms(4) handleTurnComplete_closed)
qed

lemma run_chunks:
  assumes "outputAudioContext (audioResources s) \<noteq> None"
    and "outputGainNode (audioResources s) \<noteq> None"
    and "\<forall>(now, m) \<in> set ms. \<not> isInterrupted m \<and> (\<exists>d. chunkDuration u m = Some d)"
  shows "scheduled (effects (run u (deliver ms) s)) =
           scheduled (effects s) @ plan (nextStartTime (audioResources s)) (arrivals u ms)"
  using assms
proof (induction ms arbitrary: s)
  case Nil
  show ?case by (simp add: deliver_def arrivals_def)
next
  case (Cons a ms)
  obtain now m where a: "a = (now, m)" by (cases a)
  from Cons.prems(3) a obtain d where d: "chunkDuration u m = Some d" and ni: "\<not> isInterrupted m"
    by auto
  let ?s' = "stateOf (onmessage u now m s)"
  note om = onmessage_chunk[OF d Cons.prems(1,2) ni, of now]
  have ctx: "outputAudioContext (audioResources ?s') \<noteq> None"
    "outputGainNode (audioResources ?s') \<noteq> None"
    using Cons.prems(1,2) by (simp_all add: om(2))
  have rest: "\<forall>(now, m) \<in> set ms. \<not> isInterrupted m \<and> (\<exists>d. chunkDuration u m = Some d)"
    using Cons.prems(3) by simp
  have ih: "scheduled (effects (run u (deliver ms) ?s')) =
           scheduled (effects ?s') @ plan (nextStartTime (audioResources ?s')) (arrivals u ms)"
    by (rule Cons.IH[OF ctx rest])
  have run: "run u (deliver (a # ms)) s = run u (deliver ms) ?s'"
    by (simp add: deliver_def a)
  show ?case
    unfolding run ih
    by (simp add: om scheduled_append arrivals_def a d)
qed

lemma plan_length [simp]: "length (plan t cs) = length cs"
  by (induction t cs rule: plan.induct) simp_all

lemma plan_snd: "map snd (plan t cs) = map snd cs"
  by (induction t cs rule: plan.induct) simp_all

lemma plan_fst_ge: "i < length cs \<Longrightarrow> fst (cs ! i) \<le> fst (plan t cs ! i)"
proof (induction t cs arbitrary: i rule: plan.induct)
  case (1 t)
  then show ?case by simp
next
  case (2 t now d cs)
  then show ?case by (cases i) simp_all
qed

lemma plan_step:
  "Suc i < length cs \<Longrightarrow>
     fst (plan t cs ! Suc i) = max (fst (plan t cs ! i) + snd (plan t cs ! i)) (fst (cs ! Suc i))"
proof (induction t cs arbitrary: i rule: plan.induct)
  case (1 t)
  then show ?case by simp
next
  case (2 t now d cs)
  show ?case
  proof (cases i)
    case 0
    with 2 show ?thesis by (cases cs) auto
  next
    case (Suc j)
    with 2 show ?thesis by simp
  qed
qed

lemma plan_hd_ge: "cs \<noteq> [] \<Longrightarrow> t \<le> fst (hd (plan t cs))"
  by (cases cs) auto

lemma plan_sorted:
  "\<forall>c \<in> set cs. 0 \<le> snd c \<Longrightarrow> sorted (map fst (plan t cs))"
proof (induction t cs rule: plan.induct)
  case (1 t)
  show ?case by simp
next
  case (2 t now d cs)
  have d: "0 \<le> d" using 2(2) by simp
  have s: "sorted (map fst (plan (max t now + d) cs))" using 2 by simp
  have "\<forall>x \<in> set (map fst (plan (max t now + d) cs)). max t now + d \<le> x"
  proof (cases cs)
    case Nil
    then show ?thesis by simp
  next
    case (Cons c cs')
    have "max t now + d \<le> fst (hd (plan (max t now + d) cs))"
      by (rule plan_hd_ge) (simp add: Cons)
    moreover have "plan (max t now + d) cs \<noteq> []" by (cases c) (simp add: Cons)
    ultimately show ?thesis using s
      by (cases "plan (max t now + d) cs") (auto)
  qed
  with d s show ?case by auto
qed

lemma plan_span:
  "cs \<noteq> [] \<Longrightarrow>
   \<forall>i. Suc i < length cs \<longrightarrow> fst (cs ! Suc i) \<le> fst (plan t cs ! i) + snd (plan t cs ! i) \<Longrightarrow>
   fst (last (plan t cs)) + snd (last (plan t cs)) = fst (hd (plan t cs)) + sum_list (map snd cs)"
proof (induction t cs rule: plan.induct)
  case (1 t)
  then show ?case by simp
next
  case (2 t now d cs)
  show ?case
  proof (cases cs)
    case Nil
    then show ?thesis by simp
  next
    case (Cons c cs')
    obtain now' d' where c: "c = (now', d')" by (cases c)
    have ne: "cs \<noteq> []" by (simp add: Cons)
    have b2b: "\<forall>i. Suc i < length cs \<longrightarrow>
        fst (cs ! Suc i) \<le> fst (plan (max t now + d) cs ! i) + snd (plan (max t now + d) cs ! i)"
    proof (intro allI impI)
      fix i assume "Suc i < length cs"
      then have "Suc (Suc i) < length ((now, d) # cs)" by simp
      from 2(3)[rule_format, OF this] show
        "fst (cs ! Suc i) \<le> fst (plan (max t now + d) cs ! i) + snd (plan (max t now + d) cs ! i)"
        by simp
    qed
    have first: "now' \<le> max t now + d"
      using 2(3)[rule_format, of 0] by (simp add: Cons c)
    have ih: "fst (last (plan (max t now + d) cs)) + snd (last (plan (max t now + d) cs)) =
       fst (hd (plan (max t now + d) cs)) + sum_list (map snd cs)"
      by (rule 2(1)[OF ne b2b])
    have hd: "fst (hd (plan (max t now + d) cs)) = max t now + d"
      using first by (simp add: Cons c max_def)
    have pne: "plan (max t now + d) cs \<noteq> []" by (simp add: Cons c)
    show ?thesis using ih hd pne by simp
  qed
qed

lemma arrivals_nth:
  "i < length ms \<Longrightarrow> fst (arrivals u ms ! i) = fst (ms ! i)"
  "i < length ms \<Longrightarrow> snd (arrivals u ms ! i) = the (chunkDuration u (snd (ms ! i)))"
  by (simp_all add: arrivals_def split: prod.splits)

lemma plan_snd_nth: "i < length cs \<Longrightarrow> snd (plan t cs ! i) = snd (cs ! i)"
  using plan_snd[of t cs] by (metis length_map nth_map plan_length)

text \<open>
  Claim C1. Audio chunks are delivered one after the other to a component whose output
  context and gain node exist (a session that has been started and not stopped); no
  message carries the interruption flag, and each carries a payload that decodes to a
  buffer of non-negative duration. Then each message schedules exactly one buffer, with the
  duration of its chunk. The first starts at the larger of \<^verbatim>\<open>nextStartTime\<close> and the clock.
  Each later one starts no earlier than the end of the one before it, so the start times
  never decrease; it starts exactly at that end whenever the clock reading at its arrival
  is not past that end. When that holds for every chunk, the time from the first start to
  the last end is the sum of the durations: 500 ms and 300 ms span exactly 800 ms.
\<close>

theorem gapless_schedule:
  assumes ctx: "outputAudioContext (audioResources s) \<noteq> None"
    and gain: "outputGainNode (audioResources s) \<noteq> None"
    and chunks: "\<forall>(now, m) \<in> set ms. \<not> isInterrupted m \<and> (\<exists>d\<ge>0. chunkDuration u m = Some d)"
  shows "let sch = drop (length (scheduled (effects s)))
                     (scheduled (effects (run u (deliver ms) s)))
         in scheduled (effects (run u (deliver ms) s)) = scheduled (effects s) @ sch
          \<and> length sch = length ms
          \<and> (\<forall>i<length ms. chunkDuration u (snd (ms ! i)) = Some (snd (sch ! i)))
          \<and> (ms \<noteq> [] \<longrightarrow> fst (hd sch) = max (nextStartTime (audioResources s)) (fst (hd ms)))
          \<and> (\<forall>i. Suc i < length ms \<longrightarrow> fst (sch ! i) + snd (sch ! i) \<le> fst (sch ! Suc i))
          \<and> sorted (map fst sch)
          \<and> (\<forall>i. Suc i < length ms \<longrightarrow> fst (ms ! Suc i) \<le> fst (sch ! i) + snd (sch ! i)
                \<longrightarrow> fst (sch ! Suc i) = fst (sch ! i) + snd (sch ! i))
          \<and> (ms \<noteq> [] \<and> (\<forall>i. Suc i < length ms
                              \<longrightarrow> fst (ms ! Suc i) \<le> fst (sch ! i) + snd (sch ! i))
                \<longrightarrow> fst (last sch) + snd (last sch) - fst (hd sch) = sum_list (map snd sch))"
proof -
  let ?cs = "arrivals u ms"
  let ?t = "nextStartTime (audioResources s)"
  let ?p = "plan ?t ?cs"
  have chunks': "\<forall>(now, m) \<in> set ms. \<not> isInterrupted m \<and> (\<exists>d. chunkDuration u m = Some d)"
    using chunks by fastforce
  have all: "scheduled (effects (run u (deliver ms) s)) = scheduled (effects s) @ ?p"
    by (rule run_chunks[OF ctx gain chunks'])
  have len: "length ?cs = length ms" by (simp add: arrivals_def)
  have sch: "drop (length (scheduled (effects s))) (scheduled (effects (run u (deliver ms) s))) = ?p"
    by (simp add: all)
  have 2: "length ?p = length ms" by (simp add: len)
  have 3: "\<forall>i<length ms. chunkDuration u (snd (ms ! i)) = Some (snd (?p ! i))"
  proof (intro allI impI)
    fix i assume i: "i < length ms"
    then have "ms ! i \<in> set ms" by simp
    with chunks' obtain d where "chunkDuration u (snd (ms ! i)) = Some d"
      by (cases "ms ! i") fastforce
    then show "chunkDuration u (snd (ms ! i)) = Some (snd (?p ! i))"
      using i by (simp add: plan_snd_nth len arrivals_nth)
  qed
  have 4: "ms \<noteq> [] \<longrightarrow> fst (hd ?p) = max ?t (fst (hd ms))"
    by (cases ms) (auto simp add: arrivals_def)
  have step: "Suc i < length ms \<Longrightarrow>
      fst (?p ! Suc i) = max (fst (?p ! i) + snd (?p ! i)) (fst (ms ! Suc i))" for i
    using plan_step[of i ?cs ?t] by (simp add: len arrivals_nth)
  have 5: "\<forall>i. Suc i < length ms \<longrightarrow> fst (?p ! i) + snd (?p ! i) \<le> fst (?p ! Suc i)"
    by (simp add: step)
  have nonneg: "\<forall>c \<in> set ?cs. 0 \<le> snd c"
    using chunks by (fastforce simp add: arrivals_def)
  have 6: "sorted (map fst ?p)" by (rule plan_sorted[OF nonneg])
  have 7: "\<forall>i. Suc i < length ms \<longrightarrow> fst (ms ! Suc i) \<le> fst (?p ! i) + snd (?p ! i)
                \<longrightarrow> fst (?p ! Suc i) = fst (?p ! i) + snd (?p ! i)"
    by (simp add: step)
  have 8: "ms \<noteq> [] \<and> (\<forall>i. Suc i < length ms
                              \<longrightarrow> fst (ms ! Suc i) \<le> fst (?p ! i) + snd (?p ! i))
                \<longrightarrow> fst (last ?p) + snd (last ?p) - fst (hd ?p) = sum_list (map snd ?p)"
  proof (intro impI, elim conjE)
    assume ne: "ms \<noteq> []"
      and b: "\<forall>i. Suc i < length ms \<longrightarrow> fst (ms ! Suc i) \<le> fst (?p ! i) + snd (?p ! i)"
    have ne': "?cs \<noteq> []" using ne by (simp add: arrivals_def)
    have b': "\<forall>i. Suc i < length ?cs \<longrightarrow> fst (?cs ! Suc i) \<le> fst (?p ! i) + snd (?p ! i)"
      using b by (simp add: len arrivals_nth)
    from plan_span[OF ne' b'] show
      "fst (last ?p) + snd (last ?p) - fst (hd ?p) = sum_list (map snd ?p)"
      by (simp add: plan_snd)
  qed
  show ?thesis
    unfolding Let_def sch
    using all 2 3 4 5 6 7 8 by blast
qed

lemma demo_opened_chunks:
  "effects (run demoUtils (deliver [(1, audioMessage ''AAAA''), (6 / 5, audioMessage ''BBBB'')])
     (onopen (startConversation MediaGranted initialComponent))) =
   [GetUserMedia, LiveConnect 6, ConsoleLog ''Session opened'', RequestAnimationFrame 8,
    SourceStart 11 1 (1 / 2), SourceStart 12 (3 / 2) (3 / 10)]"
  by (simp add: opened_component deliver_def onmessage_def handleTranscriptions_def
        handleAudio_def base64EncodedAudioString_def audioMessage_def noContent_def
        demoUtils_def handleTurnComplete_def handleInterrupted_def truthy_def setAdd_def
        emit_def Let_def)

lemma demo_chunk_durations:
  "chunkDuration demoUtils (audioMessage ''AAAA'') = Some (1 / 2)"
  "chunkDuration demoUtils (audioMessage ''BBBB'') = Some (3 / 10)"
  "\<not> isInterrupted (audioMessage b)"
  by (simp_all add: chunkDuration_def base64EncodedAudioString_def audioMessage_def
        noContent_def demoUtils_def isInterrupted_def truthy_def)

text \<open>
  The scenario of the claim: an open session, a 500 ms chunk arriving at clock 1 s and a
  300 ms chunk arriving at 1.2 s. They are scheduled at 1 s and 1.5 s and span 0.8 s.
\<close>

theorem gapless_schedule_witness:
  "(let s = onopen (startConversation MediaGranted initialComponent);
        ms = [(1, audioMessage ''AAAA''), (6 / 5, audioMessage ''BBBB'')];
        sch = drop (length (scheduled (effects s)))
                (scheduled (effects (run demoUtils (deliver ms) s)))
    in outputAudioContext (audioResources s) = Some 2
       \<and> outputGainNode (audioResources s) = Some 5
       \<and> chunkDuration demoUtils (audioMessage ''AAAA'') = Some (1 / 2)
       \<and> chunkDuration demoUtils (audioMessage ''BBBB'') = Some (3 / 10)
       \<and> sch = [(1, 1 / 2), (3 / 2, 3 / 10)]
       \<and> fst (last sch) + snd (last sch) - fst (hd sch) = 4 / 5
       \<and> sum_list (map snd sch) = 4 / 5)"
proof -
  let ?s = "onopen (startConversation MediaGranted initialComponent)"
  let ?ms = "[(1, audioMessage ''AAAA''), (6 / 5, audioMessage ''BBBB'')]"
  have h1: "outputAudioContext (audioResources ?s) \<noteq> None"
    and h2: "outputGainNode (audioResources ?s) \<noteq> None"
    by (simp_all add: opened_component)
  have a: "\<exists>d\<ge>0. chunkDuration demoUtils (audioMessage ''AAAA'') = Some d"
    by (rule exI[of _ "1 / 2"]) (simp add: demo_chunk_durations)
  have b: "\<exists>d\<ge>0. chunkDuration demoUtils (audioMessage ''BBBB'') = Some d"
    by (rule exI[of _ "3 / 10"]) (simp add: demo_chunk_durations)
  have h3: "\<forall>(now, m) \<in> set ?ms.
              \<not> isInterrupted m \<and> (\<exists>d\<ge>0. chunkDuration demoUtils m = Some d)"
    using a b by (simp add: demo_chunk_durations(3))
  have ev: "scheduled (effects (run demoUtils (deliver ?ms) ?s)) = [(1, 1 / 2), (3 / 2, 3 / 10)]"
    by (simp add: demo_opened_chunks)
  have ev0: "scheduled (effects ?s) = []"
    and res: "outputAudioContext (audioResources ?s) = Some 2"
      "outputGainNode (audioResources ?s) = Some 5"
    by (simp_all add: opened_component)
  show ?thesis
    using gapless_schedule [OF h1 h2 h3]
    unfolding Let_def ev ev0 res
    by (simp add: demo_chunk_durations)
qed

section \<open>Interruption\<close>

lemma scheduled_stops [simp]: "scheduled (map SourceStop xs) = []"
  by (induction xs) simp_all

lemma handleAudio_cases:
  obtains (skip) "stateOf (handleAudio u now m s) = s"
  | (fail) "handleAudio u now m s =
       Threw (s\<lparr>audioResources := (audioResources s)
                 \<lparr>nextStartTime := max (nextStartTime (audioResources s)) now\<rparr>\<rparr>)"
  | (play) d where "handleAudio u now m s =
       Returned (s\<lparr>audioResources := (audioResources s)
                   \<lparr>sources := setAdd (fresh s) (sources (audioResources s)),
                    nextStartTime := max (nextStartTime (audioResources s)) now + d\<rparr>,
                 fresh := fresh s + 1,
                 effects := effects s
                    @ [SourceStart (fresh s) (max (nextStartTime (audioResources s)) now) d]\<rparr>)"
proof (cases "base64EncodedAudioString m")
  case Raised
  then have "stateOf (handleAudio u now m s) = s" by (simp add: handleAudio_def)
  then show ?thesis by (rule skip)
next
  case Undefined
  then have "stateOf (handleAudio u now m s) = s" by (simp add: handleAudio_def)
  then show ?thesis by (rule skip)
next
  case (Str b)
  show ?thesis
  proof (cases "b \<noteq> [] \<and> outputAudioContext (audioResources s) \<noteq> None
                 \<and> outputGainNode (audioResources s) \<noteq> None")
    case False
    then have "stateOf (handleAudio u now m s) = s"
      unfolding handleAudio_def Str lookup.case by auto
    then show ?thesis by (rule skip)
  next
    case True
    show ?thesis
    proof (cases "decodeAudioData u b")
      case None
      have "handleAudio u now m s =
       Threw (s\<lparr>audioResources := (audioResources s)
                 \<lparr>nextStartTime := max (nextStartTime (audioResources s)) now\<rparr>\<rparr>)"
        unfolding handleAudio_def Str lookup.case using True None by (simp add: Let_def)
      then show ?thesis by (rule fail)
    next
      case (Some d)
      have "chunkDuration u m = Some d" using True Some by (simp add: chunkDuration_def Str)
      from handleAudio_chunk[OF this, of s now] True show ?thesis by (intro play) simp
    qed
  qed
qed

lemma onmessage_Returned:
  "onmessage u now m s = Returned s' \<Longrightarrow>
     \<exists>s2. handleAudio u now m (handleTranscriptions m s) = Returned s2
          \<and> s' = handleInterrupted m (handleTurnComplete m s2)"
  by (cases "handleAudio u now m (handleTranscriptions m s)") (simp_all add: onmessage_def)

lemma onmessage_chunk_scheduled:
  assumes "chunkDuration u m = Some d"
    and "outputAudioContext (audioResources s) \<noteq> None"
    and "outputGainNode (audioResources s) \<noteq> None"
  shows "scheduled (effects (stateOf (onmessage u now m s))) =
           scheduled (effects s) @ [(max (nextStartTime (audioResources s)) now, d)]"
proof -
  let ?s1 = "handleTranscriptions m s"
  have r: "audioResources ?s1 = audioResources s" "fresh ?s1 = fresh s" "effects ?s1 = effects s"
    by (simp_all add: handleTranscriptions_closed)
  have a: "handleAudio u now m ?s1 =
     Returned (?s1\<lparr>audioResources := (audioResources s)
                   \<lparr>sources := setAdd (fresh s) (sources (audioResources s)),
                    nextStartTime := max (nextStartTime (audioResources s)) now + d\<rparr>,
                 fresh := fresh s + 1,
                 effects := effects s
                    @ [SourceStart (fresh s) (max (nextStartTime (audioResources s)) now) d]\<rparr>)"
    using handleAudio_chunk[of u m d ?s1 now] assms(1,2,3) by (simp add: r)
  show ?thesis
    by (simp add: onmessage_def a handleInterrupted_closed handleTurnComplete_closed
          scheduled_append)
qed

text \<open>
  Claim C2, as the code has it. When a message with the interruption flag has been handled
  to its end, every source that was in the active set has been stopped, the set is empty,
  and \<^verbatim>\<open>nextStartTime\<close> is 0 (the code assigns the literal 0; it does not read the clock).
  Because the audio block takes the maximum with the clock, the next chunk, arriving at a
  clock reading \<open>now'\<close> that is not negative, is scheduled to start exactly at \<open>now'\<close>.
\<close>

theorem interruption_clears_and_rewinds:
  assumes int: "isInterrupted m"
    and ret: "onmessage u now m s = Returned s'"
  shows "sources (audioResources s') = []
       \<and> nextStartTime (audioResources s') = 0
       \<and> (\<forall>src \<in> set (sources (audioResources s)). SourceStop src \<in> set (effects s'))
       \<and> (\<forall>now' m' d. chunkDuration u m' = Some d \<and> 0 \<le> now'
              \<and> outputAudioContext (audioResources s') \<noteq> None
              \<and> outputGainNode (audioResources s') \<noteq> None
            \<longrightarrow> scheduled (effects (stateOf (onmessage u now' m' s')))
                  = scheduled (effects s') @ [(now', d)])"
proof -
  from onmessage_Returned[OF ret] obtain s2 where
    a: "handleAudio u now m (handleTranscriptions m s) = Returned s2"
    and s': "s' = handleInterrupted m (handleTurnComplete m s2)"
    by blast
  have 1: "sources (audioResources s') = []" "nextStartTime (audioResources s') = 0"
    by (simp_all add: s' handleInterrupted_closed int)
  have e: "effects s' = effects s2 @ map SourceStop (sources (audioResources s2))"
    by (simp add: s' handleInterrupted_closed int handleTurnComplete_closed)
  have sub: "set (sources (audioResources s)) \<subseteq> set (sources (audioResources s2))"
  proof (cases u now m "handleTranscriptions m s" rule: handleAudio_cases)
    case skip
    with a have "s2 = handleTranscriptions m s" by simp
    then show ?thesis by (simp add: handleTranscriptions_closed)
  next
    case fail
    with a show ?thesis by simp
  next
    case (play d)
    with a show ?thesis by (auto simp add: handleTranscriptions_closed setAdd_def)
  qed
  have 2: "\<forall>src \<in> set (sources (audioResources s)). SourceStop src \<in> set (effects s')"
    using sub by (auto simp add: e)
  have 3: "\<forall>now' m' d. chunkDuration u m' = Some d \<and> 0 \<le> now'
              \<and> outputAudioContext (audioResources s') \<noteq> None
              \<and> outputGainNode (audioResources s') \<noteq> None
            \<longrightarrow> scheduled (effects (stateOf (onmessage u now' m' s')))
                  = scheduled (effects s') @ [(now', d)]"
  proof (intro allI impI, elim conjE)
    fix now' :: real and m' d
    assume c: "chunkDuration u m' = Some d" and n: "0 \<le> now'"
      and x: "outputAudioContext (audioResources s') \<noteq> None"
      and g: "outputGainNode (audioResources s') \<noteq> None"
    from onmessage_chunk_scheduled[OF c x g, of now'] n
    show "scheduled (effects (stateOf (onmessage u now' m' s')))
                  = scheduled (effects s') @ [(now', d)]"
      by (simp add: 1)
  qed
  from 1 2 3 show ?thesis by blast
qed

lemma playing_component:
  "playingComponent =
     \<lparr>isActive = True, isConnecting = False, transcription = [],
      currentTurn = emptyTurn, error = None,
      currentTurnRef = emptyTurn, sessionRef = Some 6,
      audioResources =
        \<lparr>stream = Some 0, inputAudioContext = Some 1,
         outputAudioContext = Some 2, outputGainNode = Some 5,
         scriptProcessor = Some 10, sources = [11, 12],
         nextStartTime = 9 / 5, animationFrameId = Some 8,
         inputAnalyser = Some 3, outputAnalyser = Some 4\<rparr>,
      renderedIsActive = False, renderedIsConnecting = False,
      capturedIsActive = False, fresh = 13,
      effects =
        [GetUserMedia, LiveConnect 6, ConsoleLog ''Session opened'',
         RequestAnimationFrame 8, SourceStart 11 1 (1 / 2),
         SourceStart 12 (3 / 2) (3 / 10)]\<rparr>"
  by (simp add: playingComponent_def opened_component deliver_def onmessage_def
        handleTranscriptions_def handleAudio_def base64EncodedAudioString_def audioMessage_def
        noContent_def demoUtils_def handleTurnComplete_def handleInterrupted_def truthy_def
        setAdd_def emit_def Let_def emptyTurn_def)

lemma interrupted_playing:
  "onmessage demoUtils (13 / 10) interruptedMessage playingComponent =
     Returned
     \<lparr>isActive = True, isConnecting = False, transcription = [],
      currentTurn = emptyTurn, error = None,
      currentTurnRef = emptyTurn, sessionRef = Some 6,
      audioResources =
        \<lparr>stream = Some 0, inputAudioContext = Some 1,
         outputAudioContext = Some 2, outputGainNode = Some 5,
         scriptProcessor = Some 10, sources = [], nextStartTime = 0,
         animationFrameId = Some 8, inputAnalyser = Some 3,
         outputAnalyser = Some 4\<rparr>,
      renderedIsActive = False, renderedIsConnecting = False,
      capturedIsActive = False, fresh = 13,
      effects =
        [GetUserMedia, LiveConnect 6, ConsoleLog ''Session opened'',
         RequestAnimationFrame 8, SourceStart 11 1 (1 / 2),
         SourceStart 12 (3 / 2) (3 / 10), SourceStop 11, SourceStop 12]\<rparr>"
  by (simp add: playing_component onmessage_def
        handleTranscriptions_def handleAudio_def base64EncodedAudioString_def
        interruptedMessage_def noContent_def handleTurnComplete_def handleInterrupted_def
        truthy_def setDelete_def emit_def Let_def emptyTurn_def)

text \<open>
  At the playing demo session: the backlog ends at 1.8 s, the interruption arrives at
  1.3 s, and a chunk arriving at 1.4 s starts at 1.4 s.
\<close>

theorem interruption_clears_and_rewinds_witness:
  "(let s' = stateOf (onmessage demoUtils (13 / 10) interruptedMessage playingComponent)
    in isInterrupted interruptedMessage
       \<and> onmessage demoUtils (13 / 10) interruptedMessage playingComponent = Returned s'
       \<and> sources (audioResources playingComponent) = [11, 12]
       \<and> nextStartTime (audioResources playingComponent) = 9 / 5
       \<and> SourceStop 11 \<in> set (effects s') \<and> SourceStop 12 \<in> set (effects s')
       \<and> sources (audioResources s') = []
       \<and> nextStartTime (audioResources s') = 0
       \<and> chunkDuration demoUtils (audioMessage ''AAAA'') = Some (1 / 2)
       \<and> scheduled (effects (stateOf (onmessage demoUtils (7 / 5) (audioMessage ''AAAA'') s')))
           = scheduled (effects s') @ [(7 / 5, 1 / 2)])"
proof -
  let ?s' = "stateOf (onmessage demoUtils (13 / 10) interruptedMessage playingComponent)"
  have i: "isInterrupted interruptedMessage"
    by (simp add: isInterrupted_def interruptedMessage_def noContent_def truthy_def)
  have r: "onmessage demoUtils (13 / 10) interruptedMessage playingComponent = Returned ?s'"
    by (simp add: interrupted_playing)
  have ctx: "outputAudioContext (audioResources ?s') \<noteq> None"
    "outputGainNode (audioResources ?s') \<noteq> None"
    by (simp_all add: interrupted_playing)
  have p: "sources (audioResources playingComponent) = [11, 12]"
    "nextStartTime (audioResources playingComponent) = 9 / 5"
    by (simp_all add: playing_component)
  note T = interruption_clears_and_rewinds [OF i r]
  from T have a: "sources (audioResources ?s') = []" "nextStartTime (audioResources ?s') = 0"
    by blast+
  from T p have b: "SourceStop 11 \<in> set (effects ?s')" "SourceStop 12 \<in> set (effects ?s')"
    by simp_all
  from T ctx demo_chunk_durations(1)
  have c: "scheduled (effects (stateOf (onmessage demoUtils (7 / 5) (audioMessage ''AAAA'') ?s')))
           = scheduled (effects ?s') @ [(7 / 5, 1 / 2)]"
    by simp
  show ?thesis
    unfolding Let_def using i r p a b c demo_chunk_durations(1) by blast
qed

text \<open>
  Claim C2 as stated says that \<^verbatim>\<open>nextStartTime\<close> becomes the clock's current time. With the
  clock at 1.3 s the handler leaves it at 0.
\<close>

theorem interruption_rewinds_to_zero_not_to_clock:
  "nextStartTime (audioResources playingComponent) = 9 / 5
   \<and> nextStartTime (audioResources
        (stateOf (onmessage demoUtils (13 / 10) interruptedMessage playingComponent))) = 0
   \<and> nextStartTime (audioResources
        (stateOf (onmessage demoUtils (13 / 10) interruptedMessage playingComponent)))
       \<noteq> 13 / 10"
  by (simp add: interrupted_playing) (simp add: playing_component)

section \<open>Transcripts and the turn log\<close>

lemma handleAudio_frame:
  "transcription (stateOf (handleAudio u now m s)) = transcription s"
  "currentTurn (stateOf (handleAudio u now m s)) = currentTurn s"
  "currentTurnRef (stateOf (handleAudio u now m s)) = currentTurnRef s"
  "isActive (stateOf (handleAudio u now m s)) = isActive s"
  "isConnecting (stateOf (handleAudio u now m s)) = isConnecting s"
  "error (stateOf (handleAudio u now m s)) = error s"
  "sessionRef (stateOf (handleAudio u now m s)) = sessionRef s"
  by (cases u now m s rule: handleAudio_cases; simp)+

lemma onmessage_cases:
  obtains (threw) s1 where "handleAudio u now m (handleTranscriptions m s) = Threw s1"
      and "onmessage u now m s = Threw s1"
  | (returned) s2 where "handleAudio u now m (handleTranscriptions m s) = Returned s2"
      and "onmessage u now m s = Returned (handleInterrupted m (handleTurnComplete m s2))"
  by (cases "handleAudio u now m (handleTranscriptions m s)") (simp_all add: onmessage_def)

lemma handleAudio_frame_of:
  assumes "handleAudio u now m s = r"
  shows "transcription (stateOf r) = transcription s"
    "currentTurn (stateOf r) = currentTurn s"
    "currentTurnRef (stateOf r) = currentTurnRef s"
  using handleAudio_frame[of u now m s] assms by simp_all

lemma onmessage_transcription:
  "transcription (stateOf (onmessage u now m s)) = transcription s
   \<or> (isTurnComplete m \<and> (user (currentTurnRef s) \<noteq> [] \<or> model (currentTurnRef s) \<noteq> [])
      \<and> transcription (stateOf (onmessage u now m s)) = transcription s @ [currentTurnRef s])"
proof (cases u now m s rule: onmessage_cases)
  case (threw s1)
  from handleAudio_frame_of(1)[OF threw(1)] show ?thesis
    by (simp add: threw(2) handleTranscriptions_closed)
next
  case (returned s2)
  from handleAudio_frame_of[OF returned(1)] show ?thesis
    by (simp add: returned(2) handleTranscriptions_closed handleInterrupted_closed
          handleTurnComplete_closed)
qed

lemma onmessage_no_turn:
  "\<not> isTurnComplete m \<Longrightarrow> transcription (stateOf (onmessage u now m s)) = transcription s"
  using onmessage_transcription[of u now m s] by auto

lemma onmessage_no_turn_currentTurn:
  assumes "\<not> isTurnComplete m"
  shows "currentTurn (stateOf (onmessage u now m s)) =
     \<lparr>user = user (currentTurn s) @ userDelta m, model = model (currentTurn s) @ modelDelta m\<rparr>"
proof (cases u now m s rule: onmessage_cases)
  case (threw s1)
  from handleAudio_frame_of(2)[OF threw(1)] show ?thesis
    by (simp add: threw(2) handleTranscriptions_closed)
next
  case (returned s2)
  from handleAudio_frame_of[OF returned(1)] show ?thesis
    by (simp add: returned(2) handleTranscriptions_closed handleInterrupted_closed
          handleTurnComplete_closed assms)
qed

lemma onmessage_turn_returned:
  assumes "isTurnComplete m" and "onmessage u now m s = Returned s'"
  shows "currentTurn s' = emptyTurn"
    and "transcription s' = transcription s
           @ (if user (currentTurnRef s) \<noteq> [] \<or> model (currentTurnRef s) \<noteq> []
              then [currentTurnRef s] else [])"
proof -
  from onmessage_Returned[OF assms(2)] obtain s2 where
    a: "handleAudio u now m (handleTranscriptions m s) = Returned s2"
    and s': "s' = handleInterrupted m (handleTurnComplete m s2)"
    by blast
  from handleAudio_frame_of[OF a] show "currentTurn s' = emptyTurn"
    by (simp add: s' handleInterrupted_closed handleTurnComplete_closed assms(1))
  from handleAudio_frame_of[OF a] show "transcription s' = transcription s
           @ (if user (currentTurnRef s) \<noteq> [] \<or> model (currentTurnRef s) \<noteq> []
              then [currentTurnRef s] else [])"
    by (simp add: s' handleInterrupted_closed handleTurnComplete_closed assms(1)
          handleTranscriptions_closed)
qed

lemma run_deltas_both:
  "\<forall>(now, m) \<in> set ds. \<not> isTurnComplete m \<Longrightarrow>
     currentTurn (run u (deliver ds) s) =
           \<lparr>user = user (currentTurn s) @ concat (map (userDelta \<circ> snd) ds),
            model = model (currentTurn s) @ concat (map (modelDelta \<circ> snd) ds)\<rparr>
     \<and> transcription (run u (deliver ds) s) = transcription s"
proof (induction ds arbitrary: s)
  case Nil
  show ?case by (simp add: deliver_def)
next
  case (Cons a ds)
  obtain now m where a: "a = (now, m)" by (cases a)
  have nt: "\<not> isTurnComplete m" and rest: "\<forall>(now, m) \<in> set ds. \<not> isTurnComplete m"
    using Cons.prems a by auto
  have run: "run u (deliver (a # ds)) s = run u (deliver ds) (stateOf (onmessage u now m s))"
    by (simp add: deliver_def a)
  show ?case
    unfolding run
    using Cons.IH[OF rest, of "stateOf (onmessage u now m s)"]
    by (simp add: onmessage_no_turn_currentTurn[OF nt] onmessage_no_turn[OF nt] a)
qed

lemma run_deltas:
  assumes "\<forall>(now, m) \<in> set ds. \<not> isTurnComplete m"
  shows "currentTurn (run u (deliver ds) s) =
           \<lparr>user = user (currentTurn s) @ concat (map (userDelta \<circ> snd) ds),
            model = model (currentTurn s) @ concat (map (modelDelta \<circ> snd) ds)\<rparr>"
    and "transcription (run u (deliver ds) s) = transcription s"
  using run_deltas_both[OF assms] by blast+

text \<open>
  Claim C5, as the code has it. Messages that are not turn-complete are delivered in order;
  each appends its local and its remote delta to the accumulators, so the accumulators hold
  the concatenation of the deltas in arrival order, and the log is untouched. The component
  then renders (the ref catches up with the accumulators) and a turn-complete message is
  handled to its end. If at least one of the two accumulated strings is not empty, exactly
  one record, the accumulated pair, is appended to the log. In every case the accumulators
  are empty afterwards.
\<close>

theorem turn_logged_once_after_render:
  assumes deltas: "\<forall>(now, m) \<in> set ds. \<not> isTurnComplete m"
    and tc: "isTurnComplete m"
    and ret: "onmessage u now m (render (run u (deliver ds) s)) = Returned s'"
  shows "currentTurn (run u (deliver ds) s) =
           \<lparr>user = user (currentTurn s) @ concat (map (userDelta \<circ> snd) ds),
            model = model (currentTurn s) @ concat (map (modelDelta \<circ> snd) ds)\<rparr>
       \<and> transcription (run u (deliver ds) s) = transcription s
       \<and> (user (currentTurn (run u (deliver ds) s)) \<noteq> []
            \<or> model (currentTurn (run u (deliver ds) s)) \<noteq> []
          \<longrightarrow> transcription s' = transcription s @ [currentTurn (run u (deliver ds) s)])
       \<and> currentTurn s' = emptyTurn"
proof -
  let ?s1 = "run u (deliver ds) s"
  note d = run_deltas[OF deltas, of u s]
  have r: "currentTurnRef (render ?s1) = currentTurn ?s1"
    "transcription (render ?s1) = transcription ?s1"
    by (simp_all add: render_def)
  note t = onmessage_turn_returned[OF tc ret]
  have 3: "user (currentTurn ?s1) \<noteq> [] \<or> model (currentTurn ?s1) \<noteq> []
          \<longrightarrow> transcription s' = transcription s @ [currentTurn ?s1]"
    using t(2) by (simp add: r d(2))
  from d 3 t(1) show ?thesis by blast
qed

lemmas message_defs =
  onmessage_def handleTranscriptions_def handleAudio_def base64EncodedAudioString_def
  handleTurnComplete_def handleInterrupted_def truthy_def jsConcat_def
  audioMessage_def inputMessage_def outputMessage_def turnCompleteMessage_def
  interruptedMessage_def noContent_def demoUtils_def setAdd_def setDelete_def emit_def Let_def

lemma demo_flags:
  "\<not> isTurnComplete (inputMessage t)" "\<not> isTurnComplete (outputMessage t)"
  "\<not> isTurnComplete (audioMessage b)" "isTurnComplete turnCompleteMessage"
  "isInterrupted interruptedMessage"
  "userDelta (inputMessage t) = t" "modelDelta (inputMessage t) = []"
  "userDelta (outputMessage t) = []" "modelDelta (outputMessage t) = t"
  "userDelta turnCompleteMessage = []" "modelDelta turnCompleteMessage = []"
  by (simp_all add: isTurnComplete_def isInterrupted_def userDelta_def modelDelta_def
        message_defs)

lemma talked_component:
  "talkedComponent =
     \<lparr>isActive = True, isConnecting = False, transcription = [],
      currentTurn = \<lparr>user = ''hello'', model = ''hi there''\<rparr>, error = None,
      currentTurnRef = \<lparr>user = ''hello'', model = ''hi there''\<rparr>, sessionRef = Some 6,
      audioResources =
        \<lparr>stream = Some 0, inputAudioContext = Some 1,
         outputAudioContext = Some 2, outputGainNode = Some 5,
         scriptProcessor = Some 10, sources = [], nextStartTime = 0,
         animationFrameId = Some 8, inputAnalyser = Some 3,
         outputAnalyser = Some 4\<rparr>,
      renderedIsActive = True, renderedIsConnecting = False,
      capturedIsActive = False, fresh = 11,
      effects =
        [GetUserMedia, LiveConnect 6, ConsoleLog ''Session opened'',
         RequestAnimationFrame 8]\<rparr>"
  by (simp add: talkedComponent_def helloDeltas_def opened_component deliver_def render_def
        message_defs emptyTurn_def)

lemma logged_component:
  "onmessage demoUtils 3 turnCompleteMessage talkedComponent =
     Returned
     \<lparr>isActive = True, isConnecting = False,
      transcription = [\<lparr>user = ''hello'', model = ''hi there''\<rparr>],
      currentTurn = emptyTurn, error = None,
      currentTurnRef = \<lparr>user = ''hello'', model = ''hi there''\<rparr>, sessionRef = Some 6,
      audioResources =
        \<lparr>stream = Some 0, inputAudioContext = Some 1,
         outputAudioContext = Some 2, outputGainNode = Some 5,
         scriptProcessor = Some 10, sources = [], nextStartTime = 0,
         animationFrameId = Some 8, inputAnalyser = Some 3,
         outputAnalyser = Some 4\<rparr>,
      renderedIsActive = True, renderedIsConnecting = False,
      capturedIsActive = False, fresh = 11,
      effects =
        [GetUserMedia, LiveConnect 6, ConsoleLog ''Session opened'',
         RequestAnimationFrame 8]\<rparr>"
  by (simp add: talked_component message_defs)

text \<open>
  The scenario of the claim: after open, local deltas \<open>''hel''\<close>, \<open>''lo''\<close> and remote deltas
  \<open>''hi ''\<close>, \<open>''there''\<close>, a render, and a turn-complete message.
\<close>

theorem turn_logged_once_after_render_witness:
  "(let s = onopen (startConversation MediaGranted initialComponent);
        s' = stateOf (onmessage demoUtils 3 turnCompleteMessage
                        (render (run demoUtils (deliver helloDeltas) s)))
    in isTurnComplete turnCompleteMessage
       \<and> onmessage demoUtils 3 turnCompleteMessage
             (render (run demoUtils (deliver helloDeltas) s)) = Returned s'
       \<and> transcription s = []
       \<and> currentTurn (run demoUtils (deliver helloDeltas) s)
           = \<lparr>user = ''hello'', model = ''hi there''\<rparr>
       \<and> transcription s' = [\<lparr>user = ''hello'', model = ''hi there''\<rparr>]
       \<and> currentTurn s' = emptyTurn)"
proof -
  let ?s = "onopen (startConversation MediaGranted initialComponent)"
  let ?r = "render (run demoUtils (deliver helloDeltas) ?s)"
  let ?s' = "stateOf (onmessage demoUtils 3 turnCompleteMessage ?r)"
  have d: "\<forall>(now, m) \<in> set helloDeltas. \<not> isTurnComplete m"
    by (simp add: helloDeltas_def demo_flags)
  have r: "?r = talkedComponent" by (simp add: talkedComponent_def)
  have ret: "onmessage demoUtils 3 turnCompleteMessage ?r = Returned ?s'"
    unfolding r by (simp add: logged_component)
  have s0: "transcription ?s = []" "currentTurn ?s = emptyTurn"
    by (simp_all add: opened_component)
  have c: "concat (map (userDelta \<circ> snd) helloDeltas) = ''hello''"
    "concat (map (modelDelta \<circ> snd) helloDeltas) = ''hi there''"
    by (simp_all add: helloDeltas_def demo_flags)
  note T = turn_logged_once_after_render [OF d demo_flags(4) ret]
  from T have 1: "currentTurn (run demoUtils (deliver helloDeltas) ?s)
           = \<lparr>user = ''hello'', model = ''hi there''\<rparr>"
    unfolding c s0 by (simp add: emptyTurn_def)
  from T have 2: "transcription ?s' = [\<lparr>user = ''hello'', model = ''hi there''\<rparr>]"
    unfolding 1 s0 by simp
  from T have 3: "currentTurn ?s' = emptyTurn" by blast
  show ?thesis
    unfolding Let_def using demo_flags(4) ret s0(1) 1 2 3 by blast
qed

text \<open>
  Claim C5 as stated promises one record for every sequence of deltas. For the empty
  sequence, and for a local and a remote delta whose texts are empty, the turn-complete
  message appends none: the guard \<^verbatim>\<open>if (user || model)\<close> is false.
\<close>

theorem silent_turn_appends_no_record:
  "transcription (onopen (startConversation MediaGranted initialComponent)) = []
   \<and> transcription
        (stateOf (onmessage demoUtils 3 turnCompleteMessage
           (render (run demoUtils (deliver [])
              (onopen (startConversation MediaGranted initialComponent)))))) = []
   \<and> transcription
        (stateOf (onmessage demoUtils 3 turnCompleteMessage
           (render (run demoUtils (deliver [(1, inputMessage []), (2, outputMessage [])])
              (onopen (startConversation MediaGranted initialComponent)))))) = []"
  by (simp add: opened_component deliver_def render_def message_defs emptyTurn_def)

text \<open>
  The render in the statement above matters. When the turn-complete message is handled
  before the component has rendered, the ref still holds the turn as it was at the last
  render: here it is empty, so the deltas are dropped from the log, and the accumulators
  are reset all the same.
\<close>

lemma turn_complete_before_render_reads_the_ref:
  "(let s = stateOf (onmessage demoUtils 3 turnCompleteMessage
                (run demoUtils (deliver helloDeltas)
                   (onopen (startConversation MediaGranted initialComponent))))
    in transcription s = [] \<and> currentTurn s = emptyTurn)"
  by (simp add: helloDeltas_def opened_component deliver_def message_defs emptyTurn_def)





lemma onaudioprocess_closed:
  "onaudioprocess u inputData s =
     s\<lparr>effects := effects s
          @ (case sessionRef s of None \<Rightarrow> []
             | Some session \<Rightarrow> [SendRealtimeInput session (createBlob u inputData)])\<rparr>"
  by (cases "sessionRef s") (simp_all add: onaudioprocess_def Let_def emit_def)

lemma step_transcription:
  "transcription (step u e s) = transcription s
   \<or> (\<exists>now m. e = OnMessage now m \<and> isTurnComplete m
        \<and> transcription (step u e s) = transcription s @ [currentTurnRef s])"
proof (cases e)
  case (OnMessage now m)
  then show ?thesis using onmessage_transcription[of u now m s] by auto
next
  case (Click media)
  then show ?thesis
    by (cases media)
       (simp_all add: toggleConversation_def stopConversation_closed
          startConversation_rejected startConversation_granted)
qed (simp_all add: onopen_closed onerror_closed onclose_closed onaudioprocess_closed
       ended_def animateVisualization_def render_def Let_def emit_def)

lemma run_transcription_prefix: "prefix (transcription s) (transcription (run u es s))"
proof (induction es arbitrary: s)
  case Nil
  show ?case by simp
next
  case (Cons e es)
  have "prefix (transcription s) (transcription (step u e s))"
    using step_transcription[of u e s] by auto
  with Cons.IH[of "step u e s"] show ?case by (auto intro: prefix_order.trans)
qed

text \<open>
  Claim C10. Every event extends the log at its end or leaves it as it is, and every event
  other than a turn-complete message leaves it as it is; in particular
  \<^verbatim>\<open>stopConversation\<close>, the error callback with its teardown, the close callback,
  \<^verbatim>\<open>startConversation\<close> and \<^verbatim>\<open>toggleConversation\<close> do. Hence the log before any run of events is
  a prefix of the log after it.
\<close>

theorem transcription_append_only:
  "prefix (transcription s) (transcription (step u e s))
   \<and> ((\<forall>now m. e = OnMessage now m \<longrightarrow> \<not> isTurnComplete m)
        \<longrightarrow> transcription (step u e s) = transcription s)
   \<and> transcription (stopConversation s) = transcription s
   \<and> transcription (onerror s) = transcription s
   \<and> transcription (onclose s) = transcription s
   \<and> transcription (startConversation media s) = transcription s
   \<and> transcription (toggleConversation media s) = transcription s
   \<and> prefix (transcription s) (transcription (run u es s))"
proof -
  have 1: "prefix (transcription s) (transcription (step u e s))"
    using step_transcription[of u e s] by auto
  have 2: "(\<forall>now m. e = OnMessage now m \<longrightarrow> \<not> isTurnComplete m)
        \<longrightarrow> transcription (step u e s) = transcription s"
    using step_transcription[of u e s] by auto
  have 3: "transcription (stopConversation s) = transcription s"
    "transcription (onerror s) = transcription s"
    "transcription (onclose s) = transcription s"
    by (simp_all add: stopConversation_closed onerror_closed onclose_closed)
  have 4: "transcription (startConversation media s) = transcription s"
    by (cases media) (simp_all add: startConversation_rejected startConversation_granted)
  have 5: "transcription (toggleConversation media s) = transcription s"
    by (simp add: toggleConversation_def 3 4)
  from 1 2 3 4 5 run_transcription_prefix[of s u es] show ?thesis by blast
qed

lemma logged_restart:
  "transcription loggedComponent = [\<lparr>user = ''hello'', model = ''hi there''\<rparr>]"
  "transcription (run demoUtils [OnError, Render, Click MediaGranted, OnOpen] loggedComponent)
     = [\<lparr>user = ''hello'', model = ''hi there''\<rparr>]"
  by (simp_all add: loggedComponent_def logged_component onerror_closed render_def
        toggleConversation_def startConversation_granted onopen_closed)

text \<open>
  A session with one logged turn meets a transport error, and a new session is started and
  opened: the logged turn is still there, unchanged.
\<close>

theorem transcription_append_only_witness:
  "transcription loggedComponent = [\<lparr>user = ''hello'', model = ''hi there''\<rparr>]
   \<and> transcription (step demoUtils OnError loggedComponent) = transcription loggedComponent
   \<and> transcription (run demoUtils [OnError, Render, Click MediaGranted, OnOpen] loggedComponent)
       = transcription loggedComponent"
proof -
  note T = transcription_append_only [of loggedComponent demoUtils OnError MediaGranted
          "[OnError, Render, Click MediaGranted, OnOpen]"]
  from T have a: "transcription (step demoUtils OnError loggedComponent)
                    = transcription loggedComponent"
    by simp
  show ?thesis
    by (intro conjI) (simp_all only: logged_restart a)
qed

section \<open>Outbound capture frames\<close>

lemma sent_append: "sent (xs @ ys) = sent xs @ sent ys"
  by (induction xs rule: sent.induct) simp_all

lemma sent_calls [simp]:
  "sent (calls SessionClose r) = []" "sent (calls TrackStop r) = []"
  "sent (calls Disconnect r) = []" "sent (calls ContextClose r) = []"
  by (cases r; simp add: calls_def)+

lemma sent_stopEffects [simp]: "sent (stopEffects s) = []"
  by (simp add: stopEffects_def sent_append split: option.splits)

lemma sent_stops [simp]: "sent (map SourceStop xs) = []"
  by (induction xs) simp_all

lemma onmessage_frame:
  "sent (effects (stateOf (onmessage u now m s))) = sent (effects s)"
  "isActive (stateOf (onmessage u now m s)) = isActive s"
  "scriptProcessor (audioResources (stateOf (onmessage u now m s)))
     = scriptProcessor (audioResources s)"
  "sessionRef (stateOf (onmessage u now m s)) = sessionRef s"
proof -
  let ?s1 = "handleTranscriptions m s"
  have f: "sent (effects (stateOf (handleAudio u now m ?s1))) = sent (effects s)
         \<and> isActive (stateOf (handleAudio u now m ?s1)) = isActive s
         \<and> scriptProcessor (audioResources (stateOf (handleAudio u now m ?s1)))
             = scriptProcessor (audioResources s)
         \<and> sessionRef (stateOf (handleAudio u now m ?s1)) = sessionRef s"
    by (cases u now m ?s1 rule: handleAudio_cases)
       (simp_all add: handleTranscriptions_closed sent_append)
  have "sent (effects (stateOf (onmessage u now m s))) = sent (effects s)
      \<and> isActive (stateOf (onmessage u now m s)) = isActive s
      \<and> scriptProcessor (audioResources (stateOf (onmessage u now m s)))
          = scriptProcessor (audioResources s)
      \<and> sessionRef (stateOf (onmessage u now m s)) = sessionRef s"
  proof (cases u now m s rule: onmessage_cases)
    case (threw s1)
    with f show ?thesis by simp
  next
    case (returned s2)
    with f show ?thesis
      by (simp add: handleInterrupted_closed handleTurnComplete_closed sent_append)
  qed
  then show "sent (effects (stateOf (onmessage u now m s))) = sent (effects s)"
    "isActive (stateOf (onmessage u now m s)) = isActive s"
    "scriptProcessor (audioResources (stateOf (onmessage u now m s)))
       = scriptProcessor (audioResources s)"
    "sessionRef (stateOf (onmessage u now m s)) = sessionRef s"
    by blast+
qed

lemma step_sent:
  "sent (effects (step u e s)) =
     sent (effects s)
     @ (case e of
          AudioProcess inputData \<Rightarrow>
            (if scriptProcessor (audioResources s) \<noteq> None \<and> sessionRef s \<noteq> None
             then [createBlob u inputData] else [])
        | _ \<Rightarrow> [])"
proof (cases e)
  case (Click media)
  then show ?thesis
    by (cases media)
       (simp_all add: toggleConversation_def stopConversation_closed
          startConversation_rejected startConversation_granted sent_append)
next
  case (OnMessage now m)
  then show ?thesis by (simp add: onmessage_frame)
next
  case (AudioProcess inputData)
  then show ?thesis
    by (cases "sessionRef s") (simp_all add: onaudioprocess_closed sent_append)
qed (simp_all add: onopen_closed onerror_closed onclose_closed
       ended_def animateVisualization_def render_def Let_def emit_def sent_append)

lemma captureMatchesOpen_step:
  "captureMatchesOpen s \<Longrightarrow> captureMatchesOpen (step u e s)"
proof (cases e)
  case (Click media)
  assume "captureMatchesOpen s"
  with Click show ?thesis
    by (cases media)
       (simp_all add: captureMatchesOpen_def toggleConversation_def stopConversation_closed
          startConversation_rejected startConversation_granted emptyResources_def)
next
  case (OnMessage now m)
  assume "captureMatchesOpen s"
  with OnMessage show ?thesis by (simp add: captureMatchesOpen_def onmessage_frame)
qed (simp_all add: captureMatchesOpen_def onopen_closed onerror_closed onclose_closed
       onaudioprocess_closed ended_def animateVisualization_def render_def Let_def emit_def
       emptyResources_def)

lemma captureMatchesOpen_run:
  "captureMatchesOpen s \<Longrightarrow> captureMatchesOpen (run u es s)"
  by (induction es arbitrary: s) (simp_all add: captureMatchesOpen_step)

lemma captureMatchesOpen_initial: "captureMatchesOpen initialComponent"
  by (simp add: captureMatchesOpen_def initialComponent_def emptyResources_def)

lemma run_sent_subseq:
  "captureMatchesOpen s \<Longrightarrow>
     \<exists>new. sent (effects (run u es s)) = sent (effects s) @ new
           \<and> subseq new (capturedWhileOpen u es s)"
proof (induction es arbitrary: s)
  case Nil
  show ?case by simp
next
  case (Cons e es)
  let ?s' = "step u e s"
  from Cons.IH[OF captureMatchesOpen_step[OF Cons.prems], of u e] obtain new where
    n: "sent (effects (run u es ?s')) = sent (effects ?s') @ new"
       "subseq new (capturedWhileOpen u es ?s')"
    by blast
  show ?case
  proof (cases e)
    case (AudioProcess inputData)
    let ?one = "if scriptProcessor (audioResources s) \<noteq> None \<and> sessionRef s \<noteq> None
                then [createBlob u inputData] else []"
    have s: "sent (effects ?s') = sent (effects s) @ ?one"
      using step_sent[of u e s] by (simp add: AudioProcess)
    have "subseq ?one (if isActive s then [createBlob u inputData] else [])"
      using Cons.prems by (auto simp add: captureMatchesOpen_def)
    then have "subseq (?one @ new)
       ((if isActive s then [createBlob u inputData] else []) @ capturedWhileOpen u es ?s')"
      using n(2) by (rule list_emb_append_mono)
    moreover have "sent (effects (run u (e # es) s)) = sent (effects s) @ (?one @ new)"
      using n(1) s by simp
    ultimately show ?thesis
      unfolding AudioProcess by (intro exI[of _ "?one @ new"]) simp
  qed (use n step_sent[of u e s] in \<open>auto\<close>)
qed

text \<open>
  Claim C4. The session is open when \<open>isActive\<close> holds: \<^verbatim>\<open>onopen\<close> sets it and creates the
  script processor, \<^verbatim>\<open>stopConversation\<close> clears both. In every state the component can reach
  from its first mount, by any events in any order: a capture event that arrives while the
  session is not open (in particular while it is connecting) leaves the whole state as it
  was, so the frame is neither sent nor kept anywhere to be sent later; an event hands at
  most one frame to \<^verbatim>\<open>sendRealtimeInput\<close>, and only a capture event in an open session hands
  one, its own, after all earlier ones. So the frames sent over a run are, in order and
  each at most once, frames captured while the session was open.
\<close>

theorem frames_sent_only_while_open:
  "(let s = run u es initialComponent
    in (\<not> isActive s \<longrightarrow> step u (AudioProcess inputData) s = s)
       \<and> (sent (effects (step u e s)) = sent (effects s)
           \<or> (\<exists>d. e = AudioProcess d \<and> isActive s
                  \<and> sent (effects (step u e s)) = sent (effects s) @ [createBlob u d]))
       \<and> subseq (sent (effects s)) (capturedWhileOpen u es initialComponent))"
proof -
  let ?s = "run u es initialComponent"
  have inv: "captureMatchesOpen ?s"
    by (rule captureMatchesOpen_run[OF captureMatchesOpen_initial])
  have 1: "\<not> isActive ?s \<longrightarrow> step u (AudioProcess inputData) ?s = ?s"
    using inv by (simp add: captureMatchesOpen_def)
  have 2: "sent (effects (step u e ?s)) = sent (effects ?s)
           \<or> (\<exists>d. e = AudioProcess d \<and> isActive ?s
                  \<and> sent (effects (step u e ?s)) = sent (effects ?s) @ [createBlob u d])"
    using step_sent[of u e ?s] inv
    by (cases e) (auto simp add: captureMatchesOpen_def)
  have 3: "subseq (sent (effects ?s)) (capturedWhileOpen u es initialComponent)"
    using run_sent_subseq[OF captureMatchesOpen_initial, of u es]
    by (simp add: initialComponent_def)
  from 1 2 3 show ?thesis unfolding Let_def by blast
qed

lemma connecting_component:
  "run demoUtils [Click MediaGranted] initialComponent =
     \<lparr>isActive = False, isConnecting = True, transcription = [],
      currentTurn = emptyTurn, error = None,
      currentTurnRef = emptyTurn, sessionRef = Some 6,
      audioResources =
        \<lparr>stream = Some 0, inputAudioContext = Some 1,
         outputAudioContext = Some 2, outputGainNode = Some 5,
         scriptProcessor = None, sources = [], nextStartTime = 0,
         animationFrameId = None, inputAnalyser = Some 3,
         outputAnalyser = Some 4\<rparr>,
      renderedIsActive = False, renderedIsConnecting = False,
      capturedIsActive = False, fresh = 7,
      effects = [GetUserMedia, LiveConnect 6]\<rparr>"
  by (simp add: toggleConversation_def startConversation_granted initialComponent_def
        emptyResources_def)

lemma capture_demo:
  "sent (effects (run demoUtils
      [Click MediaGranted, AudioProcess [1 / 10], OnOpen,
       AudioProcess [1 / 5, 3 / 10], AudioProcess [2 / 5]] initialComponent))
   = [''xx'', ''x'']"
  by (simp add: toggleConversation_def startConversation_granted initialComponent_def
        emptyResources_def onopen_closed onaudioprocess_closed demoUtils_def)

text \<open>
  A granted start, a capture event while connecting, the open callback, two capture
  events: the first frame is dropped, the other two are sent in order.
\<close>

theorem frames_sent_only_while_open_witness:
  "(let s = run demoUtils [Click MediaGranted] initialComponent
    in isConnecting s \<and> \<not> isActive s
       \<and> step demoUtils (AudioProcess [1 / 10]) s = s
       \<and> sent (effects (run demoUtils
             [Click MediaGranted, AudioProcess [1 / 10], OnOpen,
              AudioProcess [1 / 5, 3 / 10], AudioProcess [2 / 5]] initialComponent))
           = [''xx'', ''x''])"
proof -
  let ?s = "run demoUtils [Click MediaGranted] initialComponent"
  have c: "isConnecting ?s" "\<not> isActive ?s"
    unfolding connecting_component by simp_all
  from frames_sent_only_while_open [of demoUtils "[Click MediaGranted]" "[1 / 10]" OnOpen] c(2)
  have d: "step demoUtils (AudioProcess [1 / 10]) ?s = ?s"
    unfolding Let_def by blast
  show ?thesis
    unfolding Let_def using c d capture_demo by blast
qed

section \<open>Failures\<close>

text \<open>
  Claim C6, what the code does. When \<^verbatim>\<open>getUserMedia\<close> rejects, the \<^verbatim>\<open>catch\<close> block logs to the
  console, sets the error message and calls \<^verbatim>\<open>stopConversation\<close>, whose second statement is
  \<^verbatim>\<open>setError(null)\<close>. The component ends not active, not connecting, with no session and no
  call of \<^verbatim>\<open>ai.live.connect\<close>, and with \<open>error = None\<close>: from the first mount the state is
  the initial one again, apart from the trace. The message that the \<^verbatim>\<open>catch\<close> block set is
  never the value of the error state.
\<close>

theorem denied_start_surfaces_nothing:
  "error (startConversation MediaRejected s) = None
   \<and> \<not> isActive (startConversation MediaRejected s)
   \<and> \<not> isConnecting (startConversation MediaRejected s)
   \<and> sessionRef (startConversation MediaRejected s) = None
   \<and> effects (startConversation MediaRejected s)
       = effects s @ [GetUserMedia, ConsoleError ''Failed to start live conversation:'']
           @ stopEffects s
   \<and> startConversation MediaRejected initialComponent
       = initialComponent
           \<lparr>effects := [GetUserMedia, ConsoleError ''Failed to start live conversation:'']\<rparr>"
  by (simp add: startConversation_rejected)
     (simp add: initialComponent_def stopEffects_def calls_def emptyResources_def)

text \<open>
  Claim C7, what the code does. \<^verbatim>\<open>onerror\<close> sets the error message and then calls
  \<^verbatim>\<open>stopConversation\<close>, which clears it: the callback has the effect of a console line
  followed by a plain stop. The teardown is the full one of \<^verbatim>\<open>stopConversation\<close>, and the
  error state is \<open>None\<close> after it.
\<close>

theorem transport_error_leaves_no_error:
  "error (onerror s) = None
   \<and> onerror s = stopConversation (emit (ConsoleError ''Live session error:'') s)
   \<and> error (step u OnError (onopen (startConversation MediaGranted initialComponent))) = None
   \<and> \<not> isActive (step u OnError (onopen (startConversation MediaGranted initialComponent)))
   \<and> audioResources (step u OnError (onopen (startConversation MediaGranted initialComponent)))
       = emptyResources"
  by (simp add: onerror_closed stopConversation_closed emit_def stopEffects_def)

text \<open>
  Claim C8, what the code does. The payload \<open>''!!''\<close> does not decode. The handler has
  raised \<^verbatim>\<open>nextStartTime\<close> to the clock (4 s) before the \<^verbatim>\<open>await\<close>, and stops there: it makes no
  call at all, so it logs nothing, and no source is started. When the same message also
  carries the turn-complete flag, the turn that the ref holds is not logged and the
  accumulators are not reset, because the handler never reaches that block.
\<close>

theorem corrupt_chunk_rejects_the_handler:
  "decodeAudioData demoUtils ''!!'' = None
   \<and> onmessage demoUtils 4 corruptMessage talkedComponent
       = Threw (talkedComponent
           \<lparr>audioResources := (audioResources talkedComponent)\<lparr>nextStartTime := 4\<rparr>\<rparr>)
   \<and> nextStartTime (audioResources talkedComponent) = 0
   \<and> effects (stateOf (onmessage demoUtils 4 corruptMessage talkedComponent))
       = effects talkedComponent
   \<and> isTurnComplete corruptTurnMessage
   \<and> onmessage demoUtils 4 corruptTurnMessage talkedComponent
       = Threw (talkedComponent
           \<lparr>audioResources := (audioResources talkedComponent)\<lparr>nextStartTime := 4\<rparr>\<rparr>)
   \<and> currentTurnRef talkedComponent = \<lparr>user = ''hello'', model = ''hi there''\<rparr>
   \<and> transcription (stateOf (onmessage demoUtils 4 corruptTurnMessage talkedComponent)) = []
   \<and> currentTurn (stateOf (onmessage demoUtils 4 corruptTurnMessage talkedComponent))
       = \<lparr>user = ''hello'', model = ''hi there''\<rparr>"
  by (simp add: talked_component corruptMessage_def corruptTurnMessage_def message_defs
        isTurnComplete_def)

section \<open>The earlier revision: the same properties\<close>

text \<open>
  The earlier revision stops idempotently, schedules chunks by the same rule, and logs a
  completed turn whatever its strings are.
\<close>

lemma stopConversation_default_closed:
  "stopConversation_default s =
     s\<lparr>isActive := False, sessionRef := None, audioResources := emptyResources,
       effects := effects s @ stopEffects_default s\<rparr>"
proof -
  define r where "r = audioResources s"
  have a: "(case sessionRef (s\<lparr>isActive := False\<rparr>) of
              None \<Rightarrow> s\<lparr>isActive := False\<rparr>
            | Some session \<Rightarrow>
                (emit (SessionClose session) (s\<lparr>isActive := False\<rparr>))\<lparr>sessionRef := None\<rparr>)
           = s\<lparr>isActive := False, sessionRef := None,
               effects := effects s @ calls SessionClose (sessionRef s)\<rparr>"
    by (cases "sessionRef s") (simp_all add: calls_def emit_def)
  have b: "audioResources (s\<lparr>isActive := False, sessionRef := None, effects := es\<rparr>) = r" for es
    by (simp add: r_def)
  show ?thesis
    unfolding stopConversation_default_def Let_def a b emitOpt_upd
    by (simp add: stopEffects_default_def r_def[symmetric])
qed

lemma stop_default_idempotent_and_releasing:
  "stopConversation_default (stopConversation_default s) = stopConversation_default s
   \<and> audioResources (stopConversation_default s) = emptyResources
   \<and> sessionRef (stopConversation_default s) = None
   \<and> \<not> isActive (stopConversation_default s)
   \<and> effects (stopConversation_default s) = effects s @ stopEffects_default s"
proof -
  have "stopEffects_default (s\<lparr>isActive := False, sessionRef := None,
          audioResources := emptyResources, effects := effects s @ stopEffects_default s\<rparr>) = []"
    by (simp add: stopEffects_default_def calls_def emptyResources_def)
  then have "stopConversation_default (stopConversation_default s) = stopConversation_default s"
    by (simp add: stopConversation_default_closed[of "s\<lparr>isActive := False, sessionRef := None,
          audioResources := emptyResources, effects := effects s @ stopEffects_default s\<rparr>"]
        stopConversation_default_closed[of s])
  then show ?thesis by (simp add: stopConversation_default_closed)
qed

lemma handleTranscriptions_default_closed:
  "handleTranscriptions_default m s =
     s\<lparr>currentTurn := \<lparr>user = user (currentTurn s) @ userDelta m,
                        model = model (currentTurn s) @ modelDelta m\<rparr>\<rparr>"
  by (simp add: handleTranscriptions_default_def userDelta_def modelDelta_def jsConcat_def
        Let_def split: option.splits)

lemma handleTurnComplete_default_closed:
  "handleTurnComplete_default m s =
     (if isTurnComplete m
      then s\<lparr>transcription := transcription s @ [currentTurnRef s], currentTurn := emptyTurn\<rparr>
      else s)"
  by (simp add: handleTurnComplete_default_def isTurnComplete_def split: option.splits)

lemma handleAudio_default_cases:
  obtains (skip) "stateOf (handleAudio_default u now m s) = s"
  | (fail) "handleAudio_default u now m s =
       Threw (s\<lparr>audioResources := (audioResources s)
                 \<lparr>nextStartTime := max (nextStartTime (audioResources s)) now\<rparr>\<rparr>)"
  | (play) d where "chunkDuration_default u m = Some d"
      "outputGainNode (audioResources s) \<noteq> None"
      "handleAudio_default u now m s =
       Returned (s\<lparr>audioResources := (audioResources s)
                   \<lparr>sources := setAdd (fresh s) (sources (audioResources s)),
                    nextStartTime := max (nextStartTime (audioResources s)) now + d\<rparr>,
                 fresh := fresh s + 1,
                 effects := effects s
                    @ [SourceStart (fresh s) (max (nextStartTime (audioResources s)) now) d]\<rparr>)"
proof (cases "audioData_default m")
  case Raised
  then have "stateOf (handleAudio_default u now m s) = s" by (simp add: handleAudio_default_def)
  then show ?thesis by (rule skip)
next
  case Undefined
  then have "stateOf (handleAudio_default u now m s) = s" by (simp add: handleAudio_default_def)
  then show ?thesis by (rule skip)
next
  case (Str b)
  show ?thesis
  proof (cases "b \<noteq> [] \<and> outputGainNode (audioResources s) \<noteq> None")
    case False
    then have "stateOf (handleAudio_default u now m s) = s"
      unfolding handleAudio_default_def Str lookup.case by auto
    then show ?thesis by (rule skip)
  next
    case True
    show ?thesis
    proof (cases "decodeAudioData u b")
      case None
      have "handleAudio_default u now m s =
       Threw (s\<lparr>audioResources := (audioResources s)
                 \<lparr>nextStartTime := max (nextStartTime (audioResources s)) now\<rparr>\<rparr>)"
        unfolding handleAudio_default_def Str lookup.case using True None by (simp add: Let_def)
      then show ?thesis by (rule fail)
    next
      case (Some d)
      have c: "chunkDuration_default u m = Some d"
        using True Some by (simp add: chunkDuration_default_def Str)
      have "handleAudio_default u now m s =
       Returned (s\<lparr>audioResources := (audioResources s)
                   \<lparr>sources := setAdd (fresh s) (sources (audioResources s)),
                    nextStartTime := max (nextStartTime (audioResources s)) now + d\<rparr>,
                 fresh := fresh s + 1,
                 effects := effects s
                    @ [SourceStart (fresh s) (max (nextStartTime (audioResources s)) now) d]\<rparr>)"
        unfolding handleAudio_default_def Str lookup.case using True Some
        by (simp add: Let_def emit_def)
      with c True show ?thesis by (intro play) simp_all
    qed
  qed
qed

lemma handleAudio_default_chunk:
  assumes "chunkDuration_default u m = Some d"
    and "outputGainNode (audioResources s) \<noteq> None"
  shows "handleAudio_default u now m s =
     Returned (s\<lparr>audioResources := (audioResources s)
                   \<lparr>sources := setAdd (fresh s) (sources (audioResources s)),
                    nextStartTime := max (nextStartTime (audioResources s)) now + d\<rparr>,
                 fresh := fresh s + 1,
                 effects := effects s
                    @ [SourceStart (fresh s) (max (nextStartTime (audioResources s)) now) d]\<rparr>)"
proof -
  from assms(1) obtain b where b: "audioData_default m = Str b" "b \<noteq> []"
    "decodeAudioData u b = Some d"
    by (cases "audioData_default m") (simp_all add: chunkDuration_default_def split: if_splits)
  show ?thesis
    unfolding handleAudio_default_def b lookup.case
    using assms(2) b(2,3)
    by (simp add: Let_def emit_def)
qed

lemma onmessage_default_chunk:
  assumes c: "chunkDuration_default u m = Some d"
    and g: "outputGainNode (audioResources s) \<noteq> None"
  shows "scheduled (effects (stateOf (onmessage_default u now m s))) =
           scheduled (effects s) @ [(max (nextStartTime (audioResources s)) now, d)]"
    and "nextStartTime (audioResources (stateOf (onmessage_default u now m s))) =
           max (nextStartTime (audioResources s)) now + d"
    and "outputGainNode (audioResources (stateOf (onmessage_default u now m s))) \<noteq> None"
proof -
  let ?s1 = "handleTurnComplete_default m (handleTranscriptions_default m s)"
  have r: "audioResources ?s1 = audioResources s" "effects ?s1 = effects s"
    by (simp_all add: handleTurnComplete_default_closed handleTranscriptions_default_closed)
  have g': "outputGainNode (audioResources ?s1) \<noteq> None" using g by (simp add: r)
  note a = handleAudio_default_chunk[OF c g', of now]
  show "scheduled (effects (stateOf (onmessage_default u now m s))) =
           scheduled (effects s) @ [(max (nextStartTime (audioResources s)) now, d)]"
    unfolding onmessage_default_def a by (simp add: r scheduled_append)
  show "nextStartTime (audioResources (stateOf (onmessage_default u now m s))) =
           max (nextStartTime (audioResources s)) now + d"
    unfolding onmessage_default_def a by (simp add: r)
  show "outputGainNode (audioResources (stateOf (onmessage_default u now m s))) \<noteq> None"
    unfolding onmessage_default_def a using g by (simp add: r)
qed

lemma deliver_default_plan:
  assumes "outputGainNode (audioResources s) \<noteq> None"
    and "\<forall>(now, m) \<in> set ms. \<exists>d. chunkDuration_default u m = Some d"
  shows "scheduled (effects (deliver_default u ms s)) =
           scheduled (effects s)
           @ plan (nextStartTime (audioResources s))
               (map (\<lambda>(now, m). (now, the (chunkDuration_default u m))) ms)"
  using assms
proof (induction ms arbitrary: s)
  case Nil
  show ?case by simp
next
  case (Cons a ms)
  obtain now m where a: "a = (now, m)" by (cases a)
  from Cons.prems(2) a obtain d where d: "chunkDuration_default u m = Some d" by auto
  let ?s' = "stateOf (onmessage_default u now m s)"
  note om = onmessage_default_chunk[OF d Cons.prems(1), of now]
  have rest: "\<forall>(now, m) \<in> set ms. \<exists>d. chunkDuration_default u m = Some d"
    using Cons.prems(2) by simp
  show ?case
    using Cons.IH[OF om(3) rest]
    by (simp add: a om(1,2) d)
qed

lemma turn_complete_default:
  "transcription (stateOf (onmessage_default u now m s)) =
     transcription s @ (if isTurnComplete m then [currentTurnRef s] else [])"
  "isTurnComplete m \<Longrightarrow> currentTurn (stateOf (onmessage_default u now m s)) = emptyTurn"
  "\<not> isTurnComplete m \<Longrightarrow> currentTurn (stateOf (onmessage_default u now m s)) =
     \<lparr>user = user (currentTurn s) @ userDelta m, model = model (currentTurn s) @ modelDelta m\<rparr>"
  by (cases u now m "handleTurnComplete_default m (handleTranscriptions_default m s)"
        rule: handleAudio_default_cases;
      simp add: onmessage_default_def handleTurnComplete_default_closed
        handleTranscriptions_default_closed)+

lemma default_revision_gapless:
  assumes gain: "outputGainNode (audioResources s) \<noteq> None"
    and chunks: "\<forall>(now, m) \<in> set ms. \<exists>d\<ge>0. chunkDuration_default u m = Some d"
  shows "\<exists>sch. scheduled (effects (deliver_default u ms s)) = scheduled (effects s) @ sch
          \<and> length sch = length ms
          \<and> sorted (map fst sch)
          \<and> (\<forall>i. Suc i < length ms \<longrightarrow>
                fst (sch ! i) + snd (sch ! i) \<le> fst (sch ! Suc i)
                \<and> (fst (ms ! Suc i) \<le> fst (sch ! i) + snd (sch ! i)
                     \<longrightarrow> fst (sch ! Suc i) = fst (sch ! i) + snd (sch ! i)))"
proof -
  let ?cs = "map (\<lambda>(now, m). (now, the (chunkDuration_default u m))) ms"
  let ?p = "plan (nextStartTime (audioResources s)) ?cs"
  have chunks': "\<forall>(now, m) \<in> set ms. \<exists>d. chunkDuration_default u m = Some d"
    using chunks by fastforce
  have all: "scheduled (effects (deliver_default u ms s)) = scheduled (effects s) @ ?p"
    by (rule deliver_default_plan[OF gain chunks'])
  have nonneg: "\<forall>c \<in> set ?cs. 0 \<le> snd c"
    using chunks by fastforce
  have fst_cs: "fst (case x of (now, m) \<Rightarrow> (now, the (chunkDuration_default u m))) = fst x"
    for x :: "real \<times> LiveServerMessage"
    by (cases x) simp
  have step: "Suc i < length ms \<Longrightarrow>
      fst (?p ! Suc i) = max (fst (?p ! i) + snd (?p ! i)) (fst (ms ! Suc i))" for i
    using plan_step[of i ?cs "nextStartTime (audioResources s)"] by (simp add: fst_cs)
  have "length ?p = length ms" by simp
  moreover have "sorted (map fst ?p)" by (rule plan_sorted[OF nonneg])
  moreover have "\<forall>i. Suc i < length ms \<longrightarrow>
                fst (?p ! i) + snd (?p ! i) \<le> fst (?p ! Suc i)
                \<and> (fst (ms ! Suc i) \<le> fst (?p ! i) + snd (?p ! i)
                     \<longrightarrow> fst (?p ! Suc i) = fst (?p ! i) + snd (?p ! i))"
    by (simp add: step)
  ultimately show ?thesis using all by blast
qed

end
